theory Spec2Isabelle
  imports Complex_Main
begin

section \<open>JavaScript values\<close>

text \<open>
  The script is JavaScript. Its values are modelled by one datatype: \<open>undefined\<close>,
  \<open>null\<close>, booleans, numbers, strings, arrays and plain objects. Numbers are the
  integers (every number the script itself writes is one); an object is the list of its
  own enumerable properties in enumeration order, the first entry for a key being the
  property. Members inherited from a prototype (\<open>Object.prototype\<close>,
  \<open>Array.prototype\<close>) are not part of a value. The property names the script writes
  itself (\<open>code\<close>, \<open>data\<close>, \<open>body\<close>, \<open>length\<close> and the like) are none of them;
  where a name comes from the caller, as in the paths of \<open>lodash_get\<close> and
  \<open>lodash_set\<close>, the model asks the engine whether it is one.
\<close>

datatype jsval =
    JUndef
  | JNull
  | JBool bool
  | JNum int
  | JStr string
  | JArr "jsval list"
  | JObj "(string \<times> jsval) list"

text \<open>ToBoolean: what \<open>x ? a : b\<close>, \<open>x && y\<close>, \<open>x || y\<close> and \<open>!x\<close> test.\<close>

fun truthy :: "jsval \<Rightarrow> bool" where
  "truthy JUndef = False"
| "truthy JNull = False"
| "truthy (JBool b) = b"
| "truthy (JNum n) = (n \<noteq> 0)"
| "truthy (JStr s) = (s \<noteq> [])"
| "truthy (JArr xs) = True"
| "truthy (JObj kvs) = True"

text \<open>\<open>o[k]\<close> on the own properties of an object: \<open>undefined\<close> when the key is absent.\<close>

definition own_prop :: "(string \<times> jsval) list \<Rightarrow> string \<Rightarrow> jsval" where
  "own_prop kvs k = (case map_of kvs k of None \<Rightarrow> JUndef | Some v \<Rightarrow> v)"

section \<open>Environment detection: \<open>Env.getEnv\<close>\<close>

text \<open>
  The ambient globals \<open>getEnv\<close> looks at. \<open>$environment\<close> and \<open>module\<close> are objects
  when the host defines them: \<open>dollar_environment\<close> holds the properties of
  \<open>$environment\<close>, \<open>module_exports\<close> the value of \<open>module.exports\<close>; \<open>None\<close> is
  \<open>typeof x == "undefined"\<close>. For \<open>$task\<close>, \<open>$loon\<close> and \<open>$rocket\<close> only
  \<open>typeof x != "undefined"\<close> is read.
\<close>

record globals =
  dollar_environment :: "(string \<times> jsval) list option"
  module_exports :: "jsval option"
  dollar_task :: bool
  dollar_loon :: bool
  dollar_rocket :: bool

text \<open>\<open>"undefined" != typeof $environment && $environment[k]\<close>\<close>

definition environment_marker :: "globals \<Rightarrow> string \<Rightarrow> bool" where
  "environment_marker g k =
     (case dollar_environment g of None \<Rightarrow> False | Some props \<Rightarrow> truthy (own_prop props k))"

text \<open>\<open>"undefined" != typeof module && module.exports\<close>\<close>

definition module_marker :: "globals \<Rightarrow> bool" where
  "module_marker g = (case module_exports g of None \<Rightarrow> False | Some e \<Rightarrow> truthy e)"

text \<open>
  \<^verbatim>\<open>getEnv() { return "undefined" != typeof $environment && $environment["surge-version"] ? "Surge"
    : "undefined" != typeof $environment && $environment["stash-version"] ? "Stash"
    : "undefined" != typeof module && module.exports ? "Node.js"
    : "undefined" != typeof $task ? "Quantumult X"
    : "undefined" != typeof $loon ? "Loon"
    : "undefined" != typeof $rocket ? "Shadowrocket" : void 0 }\<close>
  The result \<open>void 0\<close> is \<open>None\<close>.
\<close>

definition getEnv :: "globals \<Rightarrow> string option" where
  "getEnv g =
     (if environment_marker g ''surge-version'' then Some ''Surge''
      else if environment_marker g ''stash-version'' then Some ''Stash''
      else if module_marker g then Some ''Node.js''
      else if dollar_task g then Some ''Quantumult X''
      else if dollar_loon g then Some ''Loon''
      else if dollar_rocket g then Some ''Shadowrocket''
      else None)"

definition isNode :: "globals \<Rightarrow> bool" where
  "isNode g = (getEnv g = Some ''Node.js'')"

definition isQuanX :: "globals \<Rightarrow> bool" where
  "isQuanX g = (getEnv g = Some ''Quantumult X'')"

definition isSurge :: "globals \<Rightarrow> bool" where
  "isSurge g = (getEnv g = Some ''Surge'')"

definition isLoon :: "globals \<Rightarrow> bool" where
  "isLoon g = (getEnv g = Some ''Loon'')"

text \<open>
  The order of the probes as a list, for stating that \<open>getEnv\<close> returns the first match:
  each entry is a variant's name and the test of its marker.
\<close>

definition probe_order :: "(string \<times> (globals \<Rightarrow> bool)) list" where
  "probe_order =
     [(''Surge'', \<lambda>g. environment_marker g ''surge-version''),
      (''Stash'', \<lambda>g. environment_marker g ''stash-version''),
      (''Node.js'', module_marker),
      (''Quantumult X'', dollar_task),
      (''Loon'', dollar_loon),
      (''Shadowrocket'', dollar_rocket)]"

fun first_match :: "(string \<times> (globals \<Rightarrow> bool)) list \<Rightarrow> globals \<Rightarrow> string option" where
  "first_match [] g = None"
| "first_match ((name, marker) # ps) g = (if marker g then Some name else first_match ps g)"

section \<open>Results about the environment detector\<close>

text \<open>
  C9, as stated, fails: the claim has every proxy-variant global probed before the module
  system. In a host where \<open>$loon\<close> is defined and \<open>module.exports\<close> is an (empty)
  object, \<open>getEnv\<close> answers \<open>"Node.js"\<close>, not \<open>"Loon"\<close>; the same with \<open>$task\<close>.
\<close>

theorem getEnv_module_before_loon_counterexample:
  "getEnv \<lparr>dollar_environment = None, module_exports = Some (JObj []),
            dollar_task = False, dollar_loon = True, dollar_rocket = False\<rparr> = Some ''Node.js''
   \<and> getEnv \<lparr>dollar_environment = None, module_exports = Some (JObj []),
            dollar_task = True, dollar_loon = False, dollar_rocket = False\<rparr> \<noteq> Some ''Quantumult X''"
  by (simp add: getEnv_def environment_marker_def module_marker_def)

text \<open>
  C9, amended: \<open>getEnv\<close> returns the first match in the fixed order Surge, Stash (the two
  \<open>$environment\<close> markers), Node.js (the module system), Quantumult X (\<open>$task\<close>), Loon
  (\<open>$loon\<close>), Shadowrocket (\<open>$rocket\<close>), and \<open>undefined\<close> when no marker matches. So
  with a module system present and neither \<open>$environment\<close> marker, the result is
  Node.js whatever \<open>$task\<close>, \<open>$loon\<close> and \<open>$rocket\<close> are; and a proxy global decides
  only when the module system is absent.
\<close>

theorem getEnv_first_match:
  "getEnv g = first_match probe_order g
   \<and> (module_marker g \<and> \<not> environment_marker g ''surge-version''
        \<and> \<not> environment_marker g ''stash-version'' \<longrightarrow> getEnv g = Some ''Node.js'')
   \<and> (\<not> environment_marker g ''surge-version'' \<and> \<not> environment_marker g ''stash-version''
        \<and> \<not> module_marker g \<and> \<not> dollar_task g \<and> \<not> dollar_loon g \<and> \<not> dollar_rocket g
        \<longrightarrow> getEnv g = None)"
  by (simp add: getEnv_def probe_order_def)

theorem getEnv_first_match_witness:
  "getEnv \<lparr>dollar_environment = None, module_exports = Some (JObj []),
            dollar_task = True, dollar_loon = True, dollar_rocket = True\<rparr> = Some ''Node.js''
   \<and> getEnv \<lparr>dollar_environment = None, module_exports = None,
            dollar_task = False, dollar_loon = False, dollar_rocket = False\<rparr> = None"
  using getEnv_first_match [of "\<lparr>dollar_environment = None, module_exports = Some (JObj []),
            dollar_task = True, dollar_loon = True, dollar_rocket = True\<rparr>"]
        getEnv_first_match [of "\<lparr>dollar_environment = None, module_exports = None,
            dollar_task = False, dollar_loon = False, dollar_rocket = False\<rparr>"]
  by (simp add: environment_marker_def module_marker_def probe_order_def)

section \<open>Strings and conversions\<close>

text \<open>
  Strings are lists of \<open>char\<close>; the conversions below are JavaScript's on ASCII text.
  \<open>toLowerCase\<close> and \<open>toUpperCase\<close> change the 26 letters and nothing else.
\<close>

definition upper_letters :: string where
  "upper_letters = ''ABCDEFGHIJKLMNOPQRSTUVWXYZ''"

definition lower_letters :: string where
  "lower_letters = ''abcdefghijklmnopqrstuvwxyz''"

definition toLowerCase :: "string \<Rightarrow> string" where
  "toLowerCase s =
     map (\<lambda>c. case map_of (zip upper_letters lower_letters) c of None \<Rightarrow> c | Some d \<Rightarrow> d) s"

definition toUpperCase :: "string \<Rightarrow> string" where
  "toUpperCase s =
     map (\<lambda>c. case map_of (zip lower_letters upper_letters) c of None \<Rightarrow> c | Some d \<Rightarrow> d) s"

text \<open>The decimal numeral of a natural number, and of an integer (ToString of a number).\<close>

definition digit_char :: "nat \<Rightarrow> char" where
  "digit_char d = ''0123456789'' ! d"

fun digits :: "nat \<Rightarrow> string" where
  "digits n = (if n < 10 then [digit_char n] else digits (n div 10) @ [digit_char (n mod 10)])"

declare digits.simps [simp del]

definition show_int :: "int \<Rightarrow> string" where
  "show_int n = (if n < 0 then CHR ''-'' # digits (nat (- n)) else digits (nat n))"

text \<open>\<open>xs.join(sep)\<close> on strings.\<close>

fun join :: "string \<Rightarrow> string list \<Rightarrow> string" where
  "join sep [] = []"
| "join sep [x] = x"
| "join sep (x # y # ys) = x @ sep @ join sep (y # ys)"

text \<open>
  ToString, as a template literal \<open>`${x}`\<close> applies it: a number is its decimal
  numeral (for numbers below \<open>10^21\<close> in absolute value; from there on JavaScript
  prints an exponent, which is not modelled), an array is the join of its elements with
  \<open>","\<close> (\<open>null\<close> and \<open>undefined\<close> elements as the empty string), a plain object is
  \<open>"[object Object]"\<close>.
\<close>

fun to_string :: "jsval \<Rightarrow> string" where
  "to_string JUndef = ''undefined''"
| "to_string JNull = ''null''"
| "to_string (JBool b) = (if b then ''true'' else ''false'')"
| "to_string (JNum n) = show_int n"
| "to_string (JStr s) = s"
| "to_string (JArr xs) =
     join '','' (map (\<lambda>x. if x = JUndef \<or> x = JNull then [] else to_string x) xs)"
| "to_string (JObj kvs) = ''[object Object]''"

text \<open>\<open>"object" == typeof x\<close> for a value that is not \<open>null\<close>; also \<open>Object(x) === x\<close>.\<close>

fun is_object :: "jsval \<Rightarrow> bool" where
  "is_object (JArr xs) = True"
| "is_object (JObj kvs) = True"
| "is_object v = False"

section \<open>The built-in \<open>JSON\<close> object\<close>

text \<open>
  \<open>JSON.parse\<close> and \<open>JSON.stringify\<close> belong to the host, not to the script: they are
  parameters of the model. \<open>JSON_parse\<close> returns \<open>None\<close> where \<open>JSON.parse\<close> throws a
  SyntaxError; \<open>JSON_stringify\<close> gives the text of a value other than \<open>undefined\<close>.
\<close>

record JSON =
  JSON_parse :: "string \<Rightarrow> jsval option"
  JSON_stringify :: "jsval \<Rightarrow> string"

text \<open>
  \<^verbatim>\<open>toObj(t, e = null) { try { return JSON.parse(t) } catch { return e } }\<close>
  \<^verbatim>\<open>toStr(t, e = null, ...s) { try { return JSON.stringify(t, ...s) } catch { return e } }\<close>
  \<open>JSON.parse\<close> converts its argument to a string first; \<open>JSON.stringify(undefined)\<close>
  is \<open>undefined\<close>.
\<close>

definition toObj :: "JSON \<Rightarrow> jsval \<Rightarrow> jsval" where
  "toObj J t = (case JSON_parse J (to_string t) of None \<Rightarrow> JNull | Some v \<Rightarrow> v)"

definition toStr :: "JSON \<Rightarrow> jsval \<Rightarrow> jsval" where
  "toStr J t = (if t = JUndef then JUndef else JStr (JSON_stringify J t))"

section \<open>\<open>Env.queryStr\<close>\<close>

text \<open>
  The properties a \<open>for (const s in t)\<close> loop visits, with their values \<open>t[s]\<close>: the
  properties of an object, the indices of an array or of a string, nothing for any other
  value.
\<close>

fun for_in :: "jsval \<Rightarrow> (string \<times> jsval) list" where
  "for_in (JObj kvs) = kvs"
| "for_in (JArr xs) = zip (map digits [0..<length xs]) xs"
| "for_in (JStr s) = zip (map digits [0..<length s]) (map (\<lambda>c. JStr [c]) s)"
| "for_in v = []"

text \<open>
  \<^verbatim>\<open>queryStr(t) { let e = ""; for (const s in t) { let i = t[s];
      null != i && "" !== i && ("object" == typeof i && (i = JSON.stringify(i)), e += `${s}=${i}&`) }
    return e = e.substring(0, e.length - 1), e }\<close>
\<close>

definition kept :: "jsval \<Rightarrow> bool" where
  "kept i = (i \<noteq> JNull \<and> i \<noteq> JUndef \<and> i \<noteq> JStr [])"

definition pair_text :: "JSON \<Rightarrow> string \<times> jsval \<Rightarrow> string" where
  "pair_text J = (\<lambda>(s, i). s @ ''='' @ (if is_object i then JSON_stringify J i else to_string i))"

definition queryStr_step :: "JSON \<Rightarrow> string \<times> jsval \<Rightarrow> string \<Rightarrow> string" where
  "queryStr_step J si e = (if kept (snd si) then e @ pair_text J si @ ''&'' else e)"

definition queryStr :: "JSON \<Rightarrow> jsval \<Rightarrow> string" where
  "queryStr J t = (let e = fold (queryStr_step J) (for_in t) [] in take (length e - 1) e)"

section \<open>Objects: writing and deleting a property\<close>

text \<open>
  An array index is the decimal numeral, without leading zeros, of a number below
  \<open>2^32 - 1\<close>. JavaScript keeps the own properties of an object in this order: the
  array-index keys by ascending number, then the other keys in the order they were
  created. \<open>obj_put\<close> is the assignment \<open>o[k] = v\<close> on a plain object.
\<close>

definition is_digit :: "char \<Rightarrow> bool" where
  "is_digit c = (c \<in> set ''0123456789'')"

definition digit_value :: "char \<Rightarrow> nat" where
  "digit_value c = of_char c - 48"

definition dec_value :: "string \<Rightarrow> nat" where
  "dec_value s = fold (\<lambda>c n. 10 * n + digit_value c) s 0"

definition array_index :: "string \<Rightarrow> nat option" where
  "array_index s =
     (if s \<noteq> [] \<and> list_all is_digit s \<and> (s = ''0'' \<or> hd s \<noteq> CHR ''0'')
         \<and> int (dec_value s) < 4294967295
      then Some (dec_value s) else None)"

fun obj_insert :: "(string \<times> jsval) list \<Rightarrow> string \<Rightarrow> jsval \<Rightarrow> (string \<times> jsval) list" where
  "obj_insert [] k v = [(k, v)]"
| "obj_insert ((k', v') # kvs) k v =
     (case array_index k of
        None \<Rightarrow> (k', v') # obj_insert kvs k v
      | Some n \<Rightarrow>
          (case array_index k' of
             None \<Rightarrow> (k, v) # (k', v') # kvs
           | Some n' \<Rightarrow> if n < n' then (k, v) # (k', v') # kvs else (k', v') # obj_insert kvs k v))"

definition obj_put :: "(string \<times> jsval) list \<Rightarrow> string \<Rightarrow> jsval \<Rightarrow> (string \<times> jsval) list" where
  "obj_put kvs k v =
     (if k \<in> fst ` set kvs then map (\<lambda>kv. if fst kv = k then (k, v) else kv) kvs
      else obj_insert kvs k v)"

definition obj_delete :: "(string \<times> jsval) list \<Rightarrow> string \<Rightarrow> (string \<times> jsval) list" where
  "obj_delete kvs k = filter (\<lambda>(k', v'). k' \<noteq> k) kvs"

section \<open>The HTTP facade: \<open>Request\<close>, \<open>Env.get\<close>, \<open>Env.post\<close>\<close>

text \<open>
  The argument of \<open>Request\<close>, field by field as the function reads it; \<open>None\<close> is a key
  the caller left out (\<open>undefined\<close>). \<open>req_type\<close> and \<open>req_method\<close> are the keys
  \<open>type\<close> and \<open>method\<close>. \<open>body\<close> is
  \<open>None\<close> exactly when \<open>"body" in t\<close> is false. A call with a string is the call with
  \<open>{ url: t }\<close>. A timeout, when given, is a number of milliseconds, not negative. The
  key \<open>opts\<close> (extra native options, spread into the native request before \<open>url\<close>,
  \<open>headers\<close>, \<open>body\<close>, \<open>params\<close> and \<open>timeout\<close> are written) is left out.
\<close>

record request_spec =
  url :: string
  req_type :: "string option"
  req_method :: "string option"
  headers :: "(string \<times> jsval) list option"
  body :: "jsval option"
  params :: "jsval option"
  dataType :: "string option"
  resultType :: "string option"
  timeout :: "nat option"

definition of_url :: "string \<Rightarrow> request_spec" where
  "of_url u = \<lparr>url = u, req_type = None, req_method = None, headers = None, body = None,
              params = None, dataType = None, resultType = None, timeout = None\<rparr>"

text \<open>The object \<open>l\<close> that \<open>Request\<close> hands to \<open>$.http.get\<close> or \<open>$.http.post\<close>.\<close>

record native_request =
  n_url :: string
  n_method :: "string option"
  n_headers :: "(string \<times> jsval) list"
  n_body :: "jsval option"
  n_params :: "jsval option"
  n_timeout :: rat

text \<open>
  What the host's native client receives in the end: \<open>$httpClient[verb](t, ...)\<close> on
  Surge, Loon, Stash and Shadowrocket, \<open>$task.fetch(t)\<close> with \<open>t.method = verb\<close> on
  Quantumult X, \<open>got[verb](url, rest)\<close> on Node.js. The switches for redirects, which
  set other fields of the request, are left out.
\<close>

record native_call =
  verb :: string
  c_url :: string
  c_headers :: "(string \<times> jsval) list"
  c_body :: "jsval option"

text \<open>
  \<^verbatim>\<open>let { url: o, type: e, headers: r = {}, body: s, params: a, dataType: n = "form",
        resultType: u = "data" } = t;
  const p = e ? e?.toLowerCase() : "body" in t ? "post" : "get",
        c = o.concat("post" === p ? "?" + $.queryStr(a) : ""),
        i = t.timeout ? $.isSurge() ? t.timeout / 1e3 : t.timeout : 1e4;
  "json" === n && (r["Content-Type"] = "application/json;charset=UTF-8");
  const y = "string" == typeof s ? s : (s && "form" == n ? $.queryStr(s) : $.toStr(s)),
        l = { ...t, ...t?.opts ? t.opts : {}, url: c, headers: r, ..."post" === p && { body: y },
              ..."get" === p && a && { params: a }, timeout: i }\<close>
\<close>

definition value_of :: "jsval option \<Rightarrow> jsval" where
  "value_of x = (case x of None \<Rightarrow> JUndef | Some v \<Rightarrow> v)"

definition data_type :: "request_spec \<Rightarrow> string" where
  "data_type t = (case dataType t of None \<Rightarrow> ''form'' | Some n \<Rightarrow> n)"

definition result_type :: "request_spec \<Rightarrow> string" where
  "result_type t = (case resultType t of None \<Rightarrow> ''data'' | Some u \<Rightarrow> u)"

definition resolved_method :: "request_spec \<Rightarrow> string" where
  "resolved_method t =
     (case req_type t of
        Some e \<Rightarrow> if e \<noteq> [] then toLowerCase e else if body t \<noteq> None then ''post'' else ''get''
      | None \<Rightarrow> if body t \<noteq> None then ''post'' else ''get'')"

definition effective_timeout :: "globals \<Rightarrow> request_spec \<Rightarrow> rat" where
  "effective_timeout g t =
     (case timeout t of
        None \<Rightarrow> 10000
      | Some n \<Rightarrow> if n \<noteq> 0 then (if isSurge g then of_nat n / 1000 else of_nat n) else 10000)"

definition request_headers :: "request_spec \<Rightarrow> (string \<times> jsval) list" where
  "request_headers t =
     (let r = (case headers t of None \<Rightarrow> [] | Some h \<Rightarrow> h)
      in if data_type t = ''json''
         then obj_put r ''Content-Type'' (JStr ''application/json;charset=UTF-8'') else r)"

definition encoded_body :: "JSON \<Rightarrow> request_spec \<Rightarrow> jsval" where
  "encoded_body J t =
     (case value_of (body t) of
        JStr s \<Rightarrow> JStr s
      | s \<Rightarrow> if truthy s \<and> data_type t = ''form'' then JStr (queryStr J s) else toStr J s)"

definition native_request_of :: "JSON \<Rightarrow> globals \<Rightarrow> request_spec \<Rightarrow> native_request" where
  "native_request_of J g t =
     (let p = resolved_method t
      in \<lparr>n_url = url t @ (if p = ''post'' then ''?'' @ queryStr J (value_of (params t)) else []),
          n_method = req_method t,
          n_headers = request_headers t,
          n_body = (if p = ''post'' then Some (encoded_body J t) else body t),
          n_params = params t,
          n_timeout = effective_timeout g t\<rparr>)"

text \<open>
  \<^verbatim>\<open>get(t, e) { switch (t.headers && (delete t.headers["Content-Type"],
      delete t.headers["Content-Length"], delete t.headers["content-type"],
      delete t.headers["content-length"]),
      t.params && (t.url += "?" + this.queryStr(t.params)), ...\<close>
\<close>

definition Env_get :: "JSON \<Rightarrow> native_request \<Rightarrow> native_call" where
  "Env_get J t =
     \<lparr>verb = ''get'',
      c_url = (if truthy (value_of (n_params t))
               then n_url t @ ''?'' @ queryStr J (value_of (n_params t)) else n_url t),
      c_headers = obj_delete (obj_delete (obj_delete (obj_delete (n_headers t)
                    ''Content-Type'') ''Content-Length'') ''content-type'') ''content-length'',
      c_body = n_body t\<rparr>"

text \<open>
  \<^verbatim>\<open>post(t, e) { const s = t.method ? t.method.toLocaleLowerCase() : "post";
      switch (t.body && t.headers && !t.headers["Content-Type"] && !t.headers["content-type"]
          && (t.headers["content-type"] = "application/x-www-form-urlencoded"),
        t.headers && (delete t.headers["Content-Length"], delete t.headers["content-length"]), ...\<close>
\<close>

definition Env_post :: "native_request \<Rightarrow> native_call" where
  "Env_post t =
     (let s = (case n_method t of
                 Some m \<Rightarrow> if m \<noteq> [] then toLowerCase m else ''post''
               | None \<Rightarrow> ''post'');
          h = (if truthy (value_of (n_body t))
                  \<and> \<not> truthy (own_prop (n_headers t) ''Content-Type'')
                  \<and> \<not> truthy (own_prop (n_headers t) ''content-type'')
               then obj_put (n_headers t) ''content-type''
                      (JStr ''application/x-www-form-urlencoded'')
               else n_headers t)
      in \<lparr>verb = s, c_url = n_url t,
          c_headers = obj_delete (obj_delete h ''Content-Length'') ''content-length'',
          c_body = n_body t\<rparr>)"

text \<open>
  Errors. Inside \<open>Request\<close> everything runs in \<open>try { ... } catch (t) {
  console.log(`[${p.toUpperCase()}][ERROR] ${t}\n`) }\<close>, and \<open>p\<close> is declared with
  \<open>const\<close> inside the \<open>try\<close> block: the handler cannot see it, so whatever the block
  throws, the handler throws a ReferenceError and the promise of \<open>Request\<close> is rejected
  with it. The block throws when \<open>url\<close> is missing and when \<open>$.http\<close> has no method of
  the resolved name. \<open>$.http\<close> is an instance of
  \<^verbatim>\<open>class s { constructor(t) { this.env = t }
      send(t, e = "GET") { t = "string" == typeof t ? { url: t } : t; let s = this.get;
        return "POST" === e && (s = this.post),
          new Promise(((e, i) => { s.call(this, t, ((t, s, o) => { t ? i(t) : e(s) })) })) }
      get(t) { return this.send.call(this.env, t) }
      post(t) { return this.send.call(this.env, t, "POST") } }\<close>
  so its callable members are \<open>get\<close>, \<open>post\<close> and \<open>send\<close> (the resolved name is
  in lower case, and \<open>constructor\<close> cannot be called without \<open>new\<close>). Called on
  \<open>$.http\<close> itself, \<open>send\<close> reaches \<open>Env.get\<close> through the \<open>get\<close> of the class,
  which drops the callback: the native client is called as for \<open>get\<close>, but the promise
  that \<open>send\<close> returned is never settled.
\<close>

datatype js_error = TypeError | ReferenceError | RangeError | SyntaxError | Error string

datatype thrown = Thrown_value jsval | Thrown js_error

definition Request_dispatch :: "JSON \<Rightarrow> globals \<Rightarrow> request_spec \<Rightarrow> thrown + native_call" where
  "Request_dispatch J g t =
     (if url t = [] then Inl (Thrown ReferenceError)
      else let p = resolved_method t; l = native_request_of J g t
           in if p = ''get'' \<or> p = ''send'' then Inr (Env_get J l)
              else if p = ''post'' then Inr (Env_post l)
              else Inl (Thrown ReferenceError))"

text \<open>
  Reading a property. \<open>property v k\<close> is \<open>Object(v)[k]\<close> for a key \<open>k\<close> that is not
  the name of an inherited member: an own property of an object, an element or the length
  of an array, a character or the length of a string, and \<open>undefined\<close> otherwise.
  \<open>member v k\<close> is \<open>v[k]\<close> (also written \<open>v.k\<close>), which throws a TypeError on
  \<open>undefined\<close> and \<open>null\<close>.
\<close>

fun property :: "jsval \<Rightarrow> string \<Rightarrow> jsval" where
  "property (JObj kvs) k = own_prop kvs k"
| "property (JArr xs) k =
     (case array_index k of
        Some i \<Rightarrow> if i < length xs then xs ! i else JUndef
      | None \<Rightarrow> if k = ''length'' then JNum (int (length xs)) else JUndef)"
| "property (JStr s) k =
     (case array_index k of
        Some i \<Rightarrow> if i < length s then JStr [s ! i] else JUndef
      | None \<Rightarrow> if k = ''length'' then JNum (int (length s)) else JUndef)"
| "property v k = JUndef"

definition member :: "jsval \<Rightarrow> string \<Rightarrow> js_error + jsval" where
  "member v k = (if v = JUndef \<or> v = JNull then Inl TypeError else Inr (property v k))"

text \<open>
  The transport branch of \<open>Request\<close>:
  \<^verbatim>\<open>m = $.http[p.toLowerCase()](l)
        .then((t => "data" == u ? $.toObj(t.body) || t.body : $.toObj(t) || t))
        .catch((t => $.log(`[${p.toUpperCase()}][ERROR] ${t}\n`)))\<close>
  where \<open>$.http.get\<close> and \<open>$.http.post\<close> wrap the callback of \<open>Env.get\<close> and
  \<open>Env.post\<close> in a promise:
  \<^verbatim>\<open>new Promise(((e, i) => { s.call(this, t, ((t, s, o) => { t ? i(t) : e(s) })) }))\<close>
  A promise that has settled is \<open>Resolved\<close> with a value or \<open>Rejected\<close> with what was
  thrown. A line of \<open>$.logs\<close> written by the \<open>catch\<close> handler is kept as the method
  tag and the error it prints.
\<close>

datatype settled = Resolved jsval | Rejected thrown

datatype log_line = Request_error string thrown

definition send_settled :: "jsval \<Rightarrow> jsval \<Rightarrow> settled" where
  "send_settled err resp = (if truthy err then Rejected (Thrown_value err) else Resolved resp)"

definition shape_result :: "JSON \<Rightarrow> string \<Rightarrow> jsval \<Rightarrow> thrown + jsval" where
  "shape_result J u t =
     (if u = ''data''
      then (case member t ''body'' of
              Inl e \<Rightarrow> Inl (Thrown e)
            | Inr b \<Rightarrow> Inr (if truthy (toObj J b) then toObj J b else b))
      else Inr (if truthy (toObj J t) then toObj J t else t))"

fun then_settled :: "(jsval \<Rightarrow> thrown + jsval) \<Rightarrow> settled \<Rightarrow> settled" where
  "then_settled f (Resolved v) = (case f v of Inl e \<Rightarrow> Rejected e | Inr x \<Rightarrow> Resolved x)"
| "then_settled f (Rejected e) = Rejected e"

fun catch_logged :: "string \<Rightarrow> settled \<Rightarrow> settled \<times> log_line list" where
  "catch_logged tag (Resolved v) = (Resolved v, [])"
| "catch_logged tag (Rejected e) = (Resolved JUndef, [Request_error tag e])"

definition transport_branch :: "JSON \<Rightarrow> request_spec \<Rightarrow> jsval \<Rightarrow> jsval \<Rightarrow> settled \<times> log_line list" where
  "transport_branch J t err resp =
     catch_logged (toUpperCase (resolved_method t))
       (then_settled (shape_result J (result_type t)) (send_settled err resp))"

text \<open>
  The race with the timer:
  \<^verbatim>\<open>return Promise.race([new Promise(((t, o) => setTimeout((() => o(MESSAGE)), i))), m])\<close>
  where \<open>MESSAGE\<close> is a seven-character Chinese string literal (in English: the current
  request has timed out), kept here as its UTF-8 bytes.

  Time is counted in milliseconds from the call of \<open>Request\<close>. The host's native client
  either never calls back, or calls back once, \<open>tc\<close> milliseconds after the call, with an
  error argument and a response argument (the response already carrying its body). The
  timer is taken to fire exactly \<open>i\<close> milliseconds after the call, \<open>setTimeout\<close>
  counting its delay in milliseconds on every host (the hosts' treatment of a delay below
  1 or above 2147483647, which Node.js replaces by 1, is left out). \<open>race\<close> lists the
  ways the race can settle: the earlier of the two events, either of them when they fall
  on the same instant. With the method name \<open>send\<close> the transport branch never settles,
  whatever the native client does.
\<close>

definition timeout_message :: string where
  "timeout_message =
     [CHR 0xE5, CHR 0xBD, CHR 0x93, CHR 0xE5, CHR 0x89, CHR 0x8D, CHR 0xE8, CHR 0xAF, CHR 0xB7,
      CHR 0xE6, CHR 0xB1, CHR 0x82, CHR 0xE5, CHR 0xB7, CHR 0xB2, CHR 0xE8, CHR 0xB6, CHR 0x85,
      CHR 0xE6, CHR 0x97, CHR 0xB6]"

datatype native_behaviour = Never_calls_back | Calls_back rat jsval jsval

definition race :: "rat \<times> settled \<Rightarrow> (rat \<times> settled) option \<Rightarrow> (rat \<times> settled) list" where
  "race timer m =
     (case m of
        None \<Rightarrow> [timer]
      | Some (tm, sm) \<Rightarrow>
          if fst timer < tm then [timer]
          else if tm < fst timer then [(tm, sm)]
          else [timer, (tm, sm)])"

definition Request :: "JSON \<Rightarrow> globals \<Rightarrow> request_spec \<Rightarrow> native_behaviour \<Rightarrow> (rat \<times> settled) list" where
  "Request J g t nb =
     (case Request_dispatch J g t of
        Inl e \<Rightarrow> [(0, Rejected e)]
      | Inr c \<Rightarrow>
          race (effective_timeout g t, Rejected (Thrown_value (JStr timeout_message)))
            (if resolved_method t = ''send'' then None
             else (case nb of
                     Never_calls_back \<Rightarrow> None
                   | Calls_back tc err resp \<Rightarrow> Some (tc, fst (transport_branch J t err resp)))))"

text \<open>Hosts and a stand-in for the \<open>JSON\<close> object, for evaluating the model on examples.\<close>

definition node_host :: globals where
  "node_host = \<lparr>dollar_environment = None, module_exports = Some (JObj []),
                 dollar_task = False, dollar_loon = False, dollar_rocket = False\<rparr>"


definition loon_host :: globals where
  "loon_host = \<lparr>dollar_environment = None, module_exports = None,
                 dollar_task = False, dollar_loon = True, dollar_rocket = False\<rparr>"


definition no_JSON :: JSON where
  "no_JSON = \<lparr>JSON_parse = (\<lambda>s. None), JSON_stringify = (\<lambda>v. ''null'')\<rparr>"

definition braces_JSON :: JSON where
  "braces_JSON =
     \<lparr>JSON_parse = (\<lambda>s. None),
      JSON_stringify = (\<lambda>v. if v = JObj [] then ''{}'' else if v = JArr [] then ''[]'' else ''null'')\<rparr>"

section \<open>Results about \<open>queryStr\<close> and \<open>Request\<close>\<close>

lemma fold_queryStr_step:
  "fold (queryStr_step J) xs acc
     = acc @ concat (map (\<lambda>si. pair_text J si @ ''&'') (filter (\<lambda>si. kept (snd si)) xs))"
  by (induction xs arbitrary: acc) (simp_all add: queryStr_step_def)

lemma butlast_concat_amp:
  "butlast (concat (map (\<lambda>x. f x @ ''&'') ys)) = join ''&'' (map f ys)"
proof (induction ys rule: induct_list012)
  case 1 show ?case by simp
next
  case (2 x) show ?case by (simp add: butlast_append)
next
  case (3 x y zs)
  let ?h = "\<lambda>x. f x @ ''&''"
  have ne: "concat (map ?h (y # zs)) \<noteq> []" by simp
  have "concat (map ?h (x # y # zs)) = (f x @ ''&'') @ concat (map ?h (y # zs))" by simp
  then have "butlast (concat (map ?h (x # y # zs)))
        = (f x @ ''&'') @ butlast (concat (map ?h (y # zs)))"
    using ne by (simp only: butlast_append if_False)
  then show ?case using 3 by simp
qed

lemma queryStr_object:
  "queryStr J (JObj kvs) = join ''&'' (map (pair_text J) (filter (\<lambda>si. kept (snd si)) kvs))"
proof -
  have "queryStr J (JObj kvs) = butlast (fold (queryStr_step J) kvs [])"
    by (simp add: queryStr_def Let_def butlast_conv_take)
  then show ?thesis by (simp add: fold_queryStr_step butlast_concat_amp)
qed

lemma digits_small: "n < 10 \<Longrightarrow> digits n = [digit_char n]"
  by (simp add: digits.simps)

lemma Request_dispatch_post:
  assumes "resolved_method t = ''post''" and "url t \<noteq> []"
  shows "Request_dispatch J g t = Inr (Env_post (native_request_of J g t))"
  using assms by (simp add: Request_dispatch_def Let_def)

lemma Request_dispatch_Inr:
  assumes "url t \<noteq> []" and "resolved_method t = ''get'' \<or> resolved_method t = ''post''"
  shows "\<exists>c. Request_dispatch J g t = Inr c"
  using assms by (auto simp: Request_dispatch_def Let_def)

text \<open>
  C5: when the resolved method is POST, the URL that reaches the native client is the
  caller's URL followed by \<open>?\<close> and \<open>queryStr\<close> of the caller's \<open>params\<close> (the empty
  string when there are none, so the \<open>?\<close> is always there), and the encoded body travels
  separately in the request's \<open>body\<close>.
\<close>

theorem Request_post_url:
  assumes "resolved_method t = ''post''" and "url t \<noteq> []"
  shows "\<exists>c. Request_dispatch J g t = Inr c
           \<and> c_url c = url t @ ''?'' @ queryStr J (value_of (params t))
           \<and> c_body c = Some (encoded_body J t)"
  using assms
  by (simp add: Request_dispatch_post Env_post_def native_request_of_def Let_def)

theorem Request_post_url_witness:
  "resolved_method ((of_url ''https://x/y'')\<lparr>body := Some (JStr ''k=v''),
       params := Some (JObj [(''id'', JNum 7), (''tag'', JStr ''a'')])\<rparr>) = ''post''
   \<and> (\<exists>c. Request_dispatch no_JSON loon_host ((of_url ''https://x/y'')\<lparr>body := Some (JStr ''k=v''),
       params := Some (JObj [(''id'', JNum 7), (''tag'', JStr ''a'')])\<rparr>) = Inr c
         \<and> c_url c = ''https://x/y?id=7&tag=a'' \<and> c_body c = Some (JStr ''k=v''))"
  using Request_post_url [of "(of_url ''https://x/y'')\<lparr>body := Some (JStr ''k=v''),
       params := Some (JObj [(''id'', JNum 7), (''tag'', JStr ''a'')])\<rparr>" no_JSON loon_host]
  by (simp add: resolved_method_def of_url_def queryStr_object kept_def pair_text_def value_of_def
       encoded_body_def show_int_def digits_small digit_char_def)

text \<open>
  C6: \<open>Request({url: "https://x/y", body: {a: 1}})\<close> reaches the native client as a
  \<open>post\<close> with body \<open>a=1\<close> and the header \<open>content-type:
  application/x-www-form-urlencoded\<close>, on every host and whatever \<open>JSON\<close> does. In
  general, a POST whose body is an object and whose \<open>dataType\<close> is \<open>form\<close> (the
  default) sends the pairs \<open>key=value\<close> joined by \<open>&\<close>, in the order of the object's
  keys, a value that is an object or an array through \<open>JSON.stringify\<close>, and without
  the pairs whose value is \<open>null\<close>, \<open>undefined\<close> or the empty string.
\<close>

theorem Request_form_body:
  "Request_dispatch J g ((of_url ''https://x/y'')\<lparr>body := Some (JObj [(''a'', JNum 1)])\<rparr>)
     = Inr \<lparr>verb = ''post'', c_url = ''https://x/y?'',
            c_headers = [(''content-type'', JStr ''application/x-www-form-urlencoded'')],
            c_body = Some (JStr ''a=1'')\<rparr>
   \<and> (url t \<noteq> [] \<and> resolved_method t = ''post'' \<and> data_type t = ''form''
          \<and> body t = Some (JObj kvs) \<longrightarrow>
        (\<exists>c. Request_dispatch J g t = Inr c
           \<and> c_body c = Some (JStr (join ''&''
                (map (\<lambda>(k, v). k @ ''='' @ (if is_object v then JSON_stringify J v else to_string v))
                   (filter (\<lambda>(k, v). v \<noteq> JNull \<and> v \<noteq> JUndef \<and> v \<noteq> JStr []) kvs))))))"
proof (intro conjI impI)
  show "Request_dispatch J g ((of_url ''https://x/y'')\<lparr>body := Some (JObj [(''a'', JNum 1)])\<rparr>)
     = Inr \<lparr>verb = ''post'', c_url = ''https://x/y?'',
            c_headers = [(''content-type'', JStr ''application/x-www-form-urlencoded'')],
            c_body = Some (JStr ''a=1'')\<rparr>"
    by (simp add: Request_dispatch_def resolved_method_def native_request_of_def Env_post_def
          queryStr_def queryStr_step_def of_url_def
          encoded_body_def value_of_def data_type_def request_headers_def kept_def pair_text_def
          show_int_def own_prop_def obj_put_def obj_delete_def array_index_def Let_def
          digits_small digit_char_def)
next
  assume a: "url t \<noteq> [] \<and> resolved_method t = ''post'' \<and> data_type t = ''form''
          \<and> body t = Some (JObj kvs)"
  have eq: "(\<lambda>si. kept (snd si)) = (\<lambda>(k, v). v \<noteq> JNull \<and> v \<noteq> JUndef \<and> v \<noteq> JStr [])"
    by (auto simp: kept_def)
  have eq2: "pair_text J = (\<lambda>(k, v). k @ ''='' @ (if is_object v then JSON_stringify J v else to_string v))"
    by (auto simp: pair_text_def)
  have "encoded_body J t = JStr (queryStr J (JObj kvs))"
    using a by (simp add: encoded_body_def value_of_def)
  then have "encoded_body J t = JStr (join ''&''
                (map (\<lambda>(k, v). k @ ''='' @ (if is_object v then JSON_stringify J v else to_string v))
                   (filter (\<lambda>(k, v). v \<noteq> JNull \<and> v \<noteq> JUndef \<and> v \<noteq> JStr []) kvs)))"
    by (simp add: queryStr_object eq eq2)
  then show "\<exists>c. Request_dispatch J g t = Inr c
           \<and> c_body c = Some (JStr (join ''&''
                (map (\<lambda>(k, v). k @ ''='' @ (if is_object v then JSON_stringify J v else to_string v))
                   (filter (\<lambda>(k, v). v \<noteq> JNull \<and> v \<noteq> JUndef \<and> v \<noteq> JStr []) kvs))))"
    using a by (simp add: Request_dispatch_post Env_post_def native_request_of_def Let_def)
qed

theorem Request_form_body_witness:
  "\<exists>c. Request_dispatch braces_JSON node_host
          ((of_url ''https://x/y'')\<lparr>body := Some (JObj [(''a'', JNum 1), (''b'', JNull),
              (''c'', JStr []), (''d'', JObj []), (''e'', JBool True)])\<rparr>) = Inr c
       \<and> c_body c = Some (JStr ''a=1&d={}&e=true'')"
  using Request_form_body [of braces_JSON node_host
          "(of_url ''https://x/y'')\<lparr>body := Some (JObj [(''a'', JNum 1), (''b'', JNull),
              (''c'', JStr []), (''d'', JObj []), (''e'', JBool True)])\<rparr>"
          "[(''a'', JNum 1), (''b'', JNull), (''c'', JStr []), (''d'', JObj []), (''e'', JBool True)]"]
  by (simp add: resolved_method_def of_url_def data_type_def braces_JSON_def
       show_int_def digits_small digit_char_def)

text \<open>
  The race when the native client is late. For a request that reaches the native client
  (a URL is given and the method resolves to GET or POST) with a timer delay \<open>i\<close> from
  1 to 2147483647, if the client never calls back, or calls back later than \<open>i\<close>,
  \<open>Request\<close> settles in exactly one way: rejected, at \<open>i\<close>, with the seven characters
  of the message (21 bytes in UTF-8). The delay \<open>i\<close> is 10000 when no timeout (or 0) is
  given, the caller's timeout divided by 1000 on Surge, and the caller's timeout on every
  other host.
\<close>

lemma Request_timer_first:
  assumes "url t \<noteq> []"
    and "resolved_method t = ''get'' \<or> resolved_method t = ''post''"
    and "nb = Never_calls_back \<or> (\<exists>tc err resp. nb = Calls_back tc err resp \<and> effective_timeout g t < tc)"
    and "1 \<le> effective_timeout g t" and "effective_timeout g t \<le> 2147483647"
  shows "Request J g t nb
           = [(effective_timeout g t, Rejected (Thrown_value (JStr
           [CHR 0xE5, CHR 0xBD, CHR 0x93, CHR 0xE5, CHR 0x89, CHR 0x8D, CHR 0xE8, CHR 0xAF, CHR 0xB7,
            CHR 0xE6, CHR 0xB1, CHR 0x82, CHR 0xE5, CHR 0xB7, CHR 0xB2, CHR 0xE8, CHR 0xB6, CHR 0x85,
            CHR 0xE6, CHR 0x97, CHR 0xB6])))]
    \<and> effective_timeout g t =
        (case timeout t of
           None \<Rightarrow> 10000
         | Some n \<Rightarrow> if n = 0 then 10000 else if getEnv g = Some ''Surge'' then of_nat n / 1000 else of_nat n)"
proof
  obtain c where c: "Request_dispatch J g t = Inr c"
    using Request_dispatch_Inr [OF assms(1,2)] by blast
  have m: "resolved_method t \<noteq> ''send''" using assms(2) by auto
  from assms(3) show "Request J g t nb
           = [(effective_timeout g t, Rejected (Thrown_value (JStr
           [CHR 0xE5, CHR 0xBD, CHR 0x93, CHR 0xE5, CHR 0x89, CHR 0x8D, CHR 0xE8, CHR 0xAF, CHR 0xB7,
            CHR 0xE6, CHR 0xB1, CHR 0x82, CHR 0xE5, CHR 0xB7, CHR 0xB2, CHR 0xE8, CHR 0xB6, CHR 0x85,
            CHR 0xE6, CHR 0x97, CHR 0xB6])))]"
  proof
    assume "nb = Never_calls_back"
    then show ?thesis by (simp add: Request_def c race_def timeout_message_def)
  next
    assume "\<exists>tc err resp. nb = Calls_back tc err resp \<and> effective_timeout g t < tc"
    then obtain tc err resp where "nb = Calls_back tc err resp" "effective_timeout g t < tc" by blast
    then show ?thesis using m by (simp add: Request_def c race_def timeout_message_def)
  qed
next
  show "effective_timeout g t =
        (case timeout t of
           None \<Rightarrow> 10000
         | Some n \<Rightarrow> if n = 0 then 10000 else if getEnv g = Some ''Surge'' then of_nat n / 1000 else of_nat n)"
    by (simp add: effective_timeout_def isSurge_def split: option.split)
qed


text \<open>
  C7 as the specification states it fails: \<open>Request\<close> never looks at the status of an
  answer. On the hosts whose native client hands a non-2xx answer over as a response (no
  error argument), the transport branch resolves to the body of that answer and logs
  nothing: an answer with status 500 and the body \<open>Internal Server Error\<close> gives that
  text, which is truthy.
\<close>

theorem transport_non_2xx_counterexample:
  "transport_branch no_JSON (of_url ''https://x/y'') JNull
      (JObj [(''status'', JNum 500), (''body'', JStr ''Internal Server Error'')])
     = (Resolved (JStr ''Internal Server Error''), [])
   \<and> truthy (JStr ''Internal Server Error'')"
  by (simp add: transport_branch_def send_settled_def shape_result_def member_def result_type_def
        of_url_def toObj_def no_JSON_def own_prop_def)

text \<open>
  C7, amended: when the native client calls back with an error argument that is not
  falsy, the transport branch of \<open>Request\<close> is resolved, not rejected: its value is
  \<open>undefined\<close>, which is falsy, and one line with the error is added to the log. When it
  calls back without an error, the status of the answer plays no part: with the result
  type \<open>data\<close> (the default) the branch resolves to the body of the response, parsed when
  \<open>toObj\<close> reads it as a truthy value and as received otherwise, and nothing is logged.
\<close>

theorem transport_failure_undefined:
  "(truthy err \<longrightarrow>
      transport_branch J t err resp
        = (Resolved JUndef, [Request_error (toUpperCase (resolved_method t)) (Thrown_value err)]))
   \<and> \<not> truthy JUndef
   \<and> (\<not> truthy err \<and> result_type t = ''data'' \<longrightarrow>
        transport_branch J t err (JObj props)
          = (Resolved (if truthy (toObj J (own_prop props ''body''))
                       then toObj J (own_prop props ''body'') else own_prop props ''body''), []))"
  by (simp add: transport_branch_def send_settled_def shape_result_def member_def)

theorem transport_failure_undefined_witness:
  "truthy (JStr ''ECONNREFUSED'')
   \<and> transport_branch no_JSON (of_url ''https://x/y'') (JStr ''ECONNREFUSED'') JUndef
      = (Resolved JUndef, [Request_error ''GET'' (Thrown_value (JStr ''ECONNREFUSED''))])
   \<and> \<not> truthy JNull \<and> result_type (of_url ''https://x/y'') = ''data''
   \<and> transport_branch no_JSON (of_url ''https://x/y'') JNull
        (JObj [(''status'', JNum 404), (''body'', JStr ''Not Found'')])
      = (Resolved (JStr ''Not Found''), [])"
  using transport_failure_undefined [of "JStr ''ECONNREFUSED''" no_JSON "of_url ''https://x/y''" JUndef
           "[(''status'', JNum 404), (''body'', JStr ''Not Found'')]"]
        transport_failure_undefined [of JNull no_JSON "of_url ''https://x/y''" JUndef
           "[(''status'', JNum 404), (''body'', JStr ''Not Found'')]"]
  by (simp add: of_url_def resolved_method_def result_type_def toUpperCase_def
        lower_letters_def upper_letters_def toObj_def no_JSON_def own_prop_def)

section \<open>The accounts: \<open>UserInfo\<close>\<close>

text \<open>
  Numbers that may be \<open>NaN\<close>. ToNumber reads a string of decimal digits, with an
  optional sign, as that number and the empty string as 0; every other string counts as
  \<open>NaN\<close> here (fractions, exponents, radix prefixes, \<open>Infinity\<close> and surrounding
  blanks are not modelled).
\<close>

datatype num = NaN | Num int

definition string_to_num :: "string \<Rightarrow> num" where
  "string_to_num s =
     (if s = [] then Num 0
      else if list_all is_digit s then Num (int (dec_value s))
      else if hd s = CHR ''-'' \<and> tl s \<noteq> [] \<and> list_all is_digit (tl s)
           then Num (- int (dec_value (tl s)))
      else if hd s = CHR ''+'' \<and> tl s \<noteq> [] \<and> list_all is_digit (tl s)
           then Num (int (dec_value (tl s)))
      else NaN)"

fun to_num :: "jsval \<Rightarrow> num" where
  "to_num JUndef = NaN"
| "to_num JNull = Num 0"
| "to_num (JBool b) = Num (if b then 1 else 0)"
| "to_num (JNum n) = Num n"
| "to_num (JStr s) = string_to_num s"
| "to_num (JArr xs) = string_to_num (to_string (JArr xs))"
| "to_num (JObj kvs) = NaN"

fun num_sub :: "num \<Rightarrow> num \<Rightarrow> num" where
  "num_sub (Num a) (Num b) = Num (a - b)"
| "num_sub x y = NaN"

fun num_ge :: "num \<Rightarrow> num \<Rightarrow> bool" where
  "num_ge (Num a) (Num b) = (b \<le> a)"
| "num_ge x y = False"

text \<open>\<open>x?.k\<close>, and \<open>x == "500"\<close> with its conversions.\<close>

definition opt_member :: "jsval \<Rightarrow> string \<Rightarrow> jsval" where
  "opt_member v k = (if v = JUndef \<or> v = JNull then JUndef else property v k)"

fun is_500 :: "jsval \<Rightarrow> bool" where
  "is_500 (JStr s) = (s = ''500'')"
| "is_500 (JNum n) = (n = 500)"
| "is_500 (JArr xs) = (to_string (JArr xs) = ''500'')"
| "is_500 v = False"

text \<open>\<open>s.match(/pat/)\<close> for a pattern without special characters finds \<open>pat\<close> inside \<open>s\<close>.\<close>

fun contains :: "string \<Rightarrow> string \<Rightarrow> bool" where
  "contains pat [] = (pat = [])"
| "contains pat (c # cs) = (take (length pat) (c # cs) = pat \<or> contains pat cs)"

text \<open>
  \<open>res?.message.match(/pat/)\<close>: \<open>undefined\<close> when \<open>res\<close> is \<open>undefined\<close> or \<open>null\<close>
  (\<open>Inr None\<close>), a TypeError when \<open>res.message\<close> is not a string, otherwise whether the
  pattern occurs (a match array is truthy, \<open>null\<close> is not).
\<close>

definition message_match :: "string \<Rightarrow> jsval \<Rightarrow> js_error + bool option" where
  "message_match pat res =
     (if res = JUndef \<or> res = JNull then Inr None
      else case property res ''message'' of
             JStr m \<Rightarrow> Inr (Some (contains pat m))
           | v \<Rightarrow> Inl TypeError)"

text \<open>
  The answers of the network: \<open>net k\<close> is how the \<open>k\<close>-th \<open>await Request(...)\<close> of the
  run settles (counting from 0). The world keeps the requests made so far. Writes to the
  log (\<open>$.log\<close>, \<open>$.info\<close>, \<open>$.error\<close>, \<open>debug\<close>) are left out; none of them can throw.
\<close>

type_synonym network = "nat \<Rightarrow> settled"

record world =
  issued :: "request_spec list"

record user_info =
  index :: nat
  token :: jsval
  userId :: jsval
  drawCount :: nat
  drawStatus :: bool
  userName :: jsval
  avatar :: jsval
  ckStatus :: bool
  authorization :: jsval

text \<open>
  \<^verbatim>\<open>constructor(user) { this.index = ++$.userIdx; this.token = "" || user.token || user;
      this.userId = "" || user.userId; this.drawCount = 0; this.drawStatus = true
      this.userName = user.userName; this.avatar = user.avatar; this.ckStatus = true; ...
      this.headers = { ..., 'Authorization': this.token } ... }\<close>
\<close>

definition UserInfo :: "nat \<Rightarrow> jsval \<Rightarrow> js_error + user_info" where
  "UserInfo idx user =
     (case member user ''token'' of
        Inl e \<Rightarrow> Inl e
      | Inr tok \<Rightarrow>
          Inr \<lparr>index = idx,
               token = (if truthy tok then tok else user),
               userId = property user ''userId'',
               drawCount = 0, drawStatus = True,
               userName = property user ''userName'',
               avatar = property user ''avatar'',
               ckStatus = True,
               authorization = (if truthy tok then tok else user)\<rparr>)"

definition user_headers :: "user_info \<Rightarrow> (string \<times> jsval) list" where
  "user_headers u =
     [(''Accept-Encoding'', JStr ''gzip,compress,br,deflate''),
      (''Connection'', JStr ''keep-alive''),
      (''User-Agent'', JStr (''Mozilla/5.0 (iPhone; CPU iPhone OS 16_1_2 like Mac OS X) ''
         @ ''AppleWebKit/605.1.15 (KHTML, like Gecko) Mobile/15E148 ''
         @ ''MicroMessenger/8.0.52(0x18003421) NetType/4G Language/zh_CN'')),
      (''Authorization'', authorization u)]"

definition baseUrl :: string where
  "baseUrl = ''https://openapp.fmy90.com''"

text \<open>
  \<^verbatim>\<open>this.fetch = async (o) => { try {
      if (typeof o === 'string') o = { url: o };
      o.dataType = o.dataType || "json";
      o.type = o.type || "post";
      o.type == "post" && (o.body = { "version": "V2.00.01",
          "platformKey": "F2EE24892FBF66F0AFF8C0EB532A9394", "mini_scene": 1089,
          "partner_ext_infos": "", ...o.body })
      if ((!o?.url) || o?.url?.startsWith("/") || o?.url?.startsWith(":"))
          o.url = this.baseUrl + (o.url || '')
      const res = await Request({ ...o, headers: o.headers || this.headers, url: o.url })
      debug(res, ...);
      if (res?.code == "500") throw new Error(res?.Message || MESSAGE);
      return res;
    } catch (e) { this.ckStatus = false; $.log(...); } }\<close>
  The callers pass a URL, sometimes a type and a body, never headers or a dataType.
\<close>

record fetch_opts =
  o_url :: string
  o_type :: "string option"
  o_body :: "(string \<times> jsval) list option"

definition default_body :: "(string \<times> jsval) list" where
  "default_body =
     [(''version'', JStr ''V2.00.01''),
      (''platformKey'', JStr ''F2EE24892FBF66F0AFF8C0EB532A9394''),
      (''mini_scene'', JNum 1089),
      (''partner_ext_infos'', JStr [])]"

definition fetch_request :: "user_info \<Rightarrow> fetch_opts \<Rightarrow> request_spec" where
  "fetch_request u opts =
     (let ty = (case o_type opts of Some x \<Rightarrow> if x \<noteq> [] then x else ''post'' | None \<Rightarrow> ''post'');
          given = (case o_body opts of None \<Rightarrow> [] | Some kvs \<Rightarrow> kvs)
      in \<lparr>url = (if o_url opts = [] \<or> hd (o_url opts) = CHR ''/'' \<or> hd (o_url opts) = CHR '':''
                 then baseUrl @ o_url opts else o_url opts),
          req_type = Some ty,
          req_method = None,
          headers = Some (user_headers u),
          body = (if ty = ''post''
                  then Some (JObj (fold (\<lambda>(k, v) acc. obj_put acc k v) given default_body))
                  else map_option JObj (o_body opts)),
          params = None,
          dataType = Some ''json'',
          resultType = None,
          timeout = None\<rparr>)"

definition fetch :: "network \<Rightarrow> user_info \<Rightarrow> world \<Rightarrow> fetch_opts \<Rightarrow> jsval \<times> user_info \<times> world" where
  "fetch net u w opts =
     (let w' = w\<lparr>issued := issued w @ [fetch_request u opts]\<rparr>
      in case net (length (issued w)) of
           Rejected e \<Rightarrow> (JUndef, u\<lparr>ckStatus := False\<rparr>, w')
         | Resolved res \<Rightarrow>
             if is_500 (opt_member res ''code'') then (JUndef, u\<lparr>ckStatus := False\<rparr>, w')
             else (res, u, w'))"

text \<open>
  The workflow methods. Each is \<open>try { ... } catch (e) { this.ckStatus = false;
  $.error(...) }\<close>; the model returns the method's value, the account and the world
  after the call.

  \<^verbatim>\<open>async signin() { try { let res = await this.fetch({ url: "/sign/new/do" });
      if (res?.code == "500") throw new Error(res?.message);
      $.info(...) } catch (e) { this.ckStatus = false; ... } }\<close>
  \<open>bet\<close> and \<open>poolSign\<close> are the same with \<open>/active/pool/bet\<close> and
  \<open>/active/pool/sign\<close>.
\<close>

definition plain_call :: "string \<Rightarrow> network \<Rightarrow> user_info \<Rightarrow> world \<Rightarrow> unit \<times> user_info \<times> world" where
  "plain_call path net u w =
     (let (res, u', w') = fetch net u w \<lparr>o_url = path, o_type = None, o_body = None\<rparr>
      in if is_500 (opt_member res ''code'') then ((), u'\<lparr>ckStatus := False\<rparr>, w')
         else ((), u', w'))"

definition signin :: "network \<Rightarrow> user_info \<Rightarrow> world \<Rightarrow> unit \<times> user_info \<times> world" where
  "signin = plain_call ''/sign/new/do''"

definition bet :: "network \<Rightarrow> user_info \<Rightarrow> world \<Rightarrow> unit \<times> user_info \<times> world" where
  "bet = plain_call ''/active/pool/bet''"

definition poolSign :: "network \<Rightarrow> user_info \<Rightarrow> world \<Rightarrow> unit \<times> user_info \<times> world" where
  "poolSign = plain_call ''/active/pool/sign''"

text \<open>
  \<^verbatim>\<open>async step() { try { const opts = { url: "/step/exchange", body: { "steps": 1720 } }
      let res = await this.fetch(opts);
      if (res?.code == "500") throw new Error(res?.message);
      $.info(...); return res?.message.match(/PATTERN/); } catch (e) { ... } }\<close>
  The pattern is a Chinese phrase (at most three exchanges a day), kept as its UTF-8
  bytes. The value is whether the result is truthy, which is all \<open>main\<close> reads.
\<close>

definition step_pattern :: string where
  "step_pattern =
     [CHR 0xE6, CHR 0xAF, CHR 0x8F, CHR 0xE5, CHR 0xA4, CHR 0xA9, CHR 0xE6, CHR 0x9C, CHR 0x80,
      CHR 0xE5, CHR 0xA4, CHR 0x9A, CHR 0xE5, CHR 0x85, CHR 0x91, CHR 0xE6, CHR 0x8D, CHR 0xA2,
      CHR 0x33, CHR 0xE6, CHR 0xAC, CHR 0xA1]"

definition step :: "network \<Rightarrow> user_info \<Rightarrow> world \<Rightarrow> bool \<times> user_info \<times> world" where
  "step net u w =
     (let (res, u', w') = fetch net u w
            \<lparr>o_url = ''/step/exchange'', o_type = None, o_body = Some [(''steps'', JNum 1720)]\<rparr>
      in if is_500 (opt_member res ''code'') then (False, u'\<lparr>ckStatus := False\<rparr>, w')
         else case message_match step_pattern res of
                Inl e \<Rightarrow> (False, u'\<lparr>ckStatus := False\<rparr>, w')
              | Inr None \<Rightarrow> (False, u', w')
              | Inr (Some found) \<Rightarrow> (found, u', w'))"

text \<open>
  \<^verbatim>\<open>async doTask(task) { try { const opts = { url: "/home/send-task-beans", body: {
        "version": "V2.00.01", "mini_scene": "1005", "taskId": task?.taskId || task,
        "platformKey": "90EE1D21919D80F026360A3B71F09327" } }
      let res = await this.fetch(opts);
      if (res?.code == "500") throw new Error(res?.message);
      $.info(...); if (res?.message.match(/PATTERN/)) return task; } catch (e) { ... } }
  async alipayTask() { let taskList = [{ "name": ..., "taskId": 20 }, { ..., "taskId": 32 },
        { ..., "taskId": 19 }]; for (let task of taskList) { await this.doTask(task); } }\<close>
\<close>

definition task_pattern :: string where
  "task_pattern =
     [CHR 0xE5, CHR 0xA5, CHR 0x96, CHR 0xE5, CHR 0x8A, CHR 0xB1, CHR 0xE4, CHR 0xBF, CHR 0xA1,
      CHR 0xE6, CHR 0x81, CHR 0xAF]"

definition doTask :: "int \<Rightarrow> network \<Rightarrow> user_info \<Rightarrow> world \<Rightarrow> unit \<times> user_info \<times> world" where
  "doTask taskId net u w =
     (let (res, u', w') = fetch net u w
            \<lparr>o_url = ''/home/send-task-beans'', o_type = None,
             o_body = Some [(''version'', JStr ''V2.00.01''), (''mini_scene'', JStr ''1005''),
                            (''taskId'', JNum taskId),
                            (''platformKey'', JStr ''90EE1D21919D80F026360A3B71F09327'')]\<rparr>
      in if is_500 (opt_member res ''code'') then ((), u'\<lparr>ckStatus := False\<rparr>, w')
         else case message_match task_pattern res of
                Inl e \<Rightarrow> ((), u'\<lparr>ckStatus := False\<rparr>, w')
              | Inr r \<Rightarrow> ((), u', w'))"

definition alipayTask :: "network \<Rightarrow> user_info \<Rightarrow> world \<Rightarrow> unit \<times> user_info \<times> world" where
  "alipayTask net u w =
     (let (r1, u1, w1) = doTask 20 net u w;
          (r2, u2, w2) = doTask 32 net u1 w1
      in doTask 19 net u2 w2)"

text \<open>
  \<^verbatim>\<open>async draw() { try { const opts = { url: "/active/turntable/go", body: { "active_id": 1 } }
      let res = await this.fetch(opts);
      if (res?.code == "500") throw new Error(res?.message);
      $.info(`... ${res?.data.prizeName || res?.message}`); } catch (e) { ... } }\<close>
  \<open>res?.data.prizeName\<close> throws a TypeError when \<open>res\<close> is there and \<open>res.data\<close> is
  \<open>undefined\<close> or \<open>null\<close>.
\<close>

definition draw :: "network \<Rightarrow> user_info \<Rightarrow> world \<Rightarrow> unit \<times> user_info \<times> world" where
  "draw net u w =
     (let (res, u', w') = fetch net u w
            \<lparr>o_url = ''/active/turntable/go'', o_type = None,
             o_body = Some [(''active_id'', JNum 1)]\<rparr>
      in if is_500 (opt_member res ''code'') then ((), u'\<lparr>ckStatus := False\<rparr>, w')
         else if res = JUndef \<or> res = JNull then ((), u', w')
         else case member (property res ''data'') ''prizeName'' of
                Inl e \<Rightarrow> ((), u'\<lparr>ckStatus := False\<rparr>, w')
              | Inr v \<Rightarrow> ((), u', w'))"

text \<open>
  \<^verbatim>\<open>async bean(type) { try { const opts = { url: `https://openapp.fmy90.com/user/new/beans/info
        ?type=${type}&version=V2.00.01&platformKey=...&mini_scene=1089&partner_ext_infos=`,
        type: "get" }
      let res = await this.fetch(opts);
      if (res?.code == "500") throw new Error(res?.message);
      return res?.data?.totalCount; } catch (e) { ... } }
  async getBean() { try { let getCount = await this.bean(1); let useCount = await this.bean(2);
      if(!(getCount&&useCount)) throw new Error(MESSAGE);
      let total = getCount - 0 - useCount
      $.info(...); return total; } catch (e) { this.ckStatus = false; ... } }\<close>
  The value of \<open>getBean\<close> is \<open>None\<close> for \<open>undefined\<close>.
\<close>

definition bean :: "nat \<Rightarrow> network \<Rightarrow> user_info \<Rightarrow> world \<Rightarrow> jsval \<times> user_info \<times> world" where
  "bean ty net u w =
     (let (res, u', w') = fetch net u w
            \<lparr>o_url = ''https://openapp.fmy90.com/user/new/beans/info?type='' @ digits ty
                @ ''&version=V2.00.01&platformKey=F2EE24892FBF66F0AFF8C0EB532A9394''
                @ ''&mini_scene=1089&partner_ext_infos='',
             o_type = Some ''get'', o_body = None\<rparr>
      in if is_500 (opt_member res ''code'') then (JUndef, u'\<lparr>ckStatus := False\<rparr>, w')
         else (opt_member (opt_member res ''data'') ''totalCount'', u', w'))"

definition getBean :: "network \<Rightarrow> user_info \<Rightarrow> world \<Rightarrow> num option \<times> user_info \<times> world" where
  "getBean net u w =
     (let (getCount, u1, w1) = bean 1 net u w;
          (useCount, u2, w2) = bean 2 net u1 w1
      in if \<not> (truthy getCount \<and> truthy useCount) then (None, u2\<lparr>ckStatus := False\<rparr>, w2)
         else (Some (num_sub (num_sub (to_num getCount) (Num 0)) (to_num useCount)), u2, w2))"

text \<open>
  \<^verbatim>\<open>async upDateToken() { try {
      const opts = { url: "/auth/refresh/token", body: { "token": this.token.split("bearer ")[1] } }
      let res = await this.fetch(opts);
      $.info($.toStr(res));
      if (!res?.data?.token) throw new Error(res?.message);
      ... // the refreshed token is written to the stored account list
      this.headers['Authorization'] = "bearer " + res?.data?.token;
      this.token = "bearer " + res?.data?.token;
    } catch (e) { this.ckStatus = false; ... } }\<close>
  \<open>this.token.split\<close> throws a TypeError when the token is not a string. Writing the
  stored account list (\<open>refreshQingLong\<close> or \<open>$.setjson\<close>) does not touch the account
  object; the model leaves it out and takes it to return.
\<close>

fun after_sep :: "string \<Rightarrow> string \<Rightarrow> string option" where
  "after_sep sep [] = (if sep = [] then Some [] else None)"
| "after_sep sep (c # cs) =
     (if take (length sep) (c # cs) = sep then Some (drop (length sep) (c # cs))
      else after_sep sep cs)"

fun before_sep :: "string \<Rightarrow> string \<Rightarrow> string" where
  "before_sep sep [] = []"
| "before_sep sep (c # cs) =
     (if take (length sep) (c # cs) = sep then [] else c # before_sep sep cs)"

definition second_piece :: "string \<Rightarrow> string \<Rightarrow> jsval" where
  "second_piece sep s =
     (case after_sep sep s of None \<Rightarrow> JUndef | Some rest \<Rightarrow> JStr (before_sep sep rest))"

definition upDateToken :: "network \<Rightarrow> user_info \<Rightarrow> world \<Rightarrow> unit \<times> user_info \<times> world" where
  "upDateToken net u w =
     (case token u of
        JStr tk \<Rightarrow>
          (let (res, u', w') = fetch net u w
                 \<lparr>o_url = ''/auth/refresh/token'', o_type = None,
                  o_body = Some [(''token'', second_piece ''bearer '' tk)]\<rparr>;
               fresh = opt_member (opt_member res ''data'') ''token''
           in if \<not> truthy fresh then ((), u'\<lparr>ckStatus := False\<rparr>, w')
              else ((), u'\<lparr>authorization := JStr (''bearer '' @ to_string fresh),
                            token := JStr (''bearer '' @ to_string fresh)\<rparr>, w'))
      | v \<Rightarrow> ((), u\<lparr>ckStatus := False\<rparr>, w))"

section \<open>The orchestrator: \<open>checkEnv\<close> and \<open>main\<close>\<close>

text \<open>
  \<^verbatim>\<open>async function checkEnv() { try {
      if (!userCookie?.length) throw new Error("no available accounts found");
      $.log(...), $.userList.push(...userCookie.map((o => new UserInfo(o))).filter(Boolean))
    } catch (o) { throw o } }\<close>
  \<open>userCookie\<close> is the parsed stored value (or \<open>[]\<close>). The accounts are numbered from 1.
\<close>

fun construct_all :: "nat \<Rightarrow> jsval list \<Rightarrow> js_error + user_info list" where
  "construct_all n [] = Inr []"
| "construct_all n (x # xs) =
     (case UserInfo (Suc n) x of
        Inl e \<Rightarrow> Inl e
      | Inr u \<Rightarrow> (case construct_all (Suc n) xs of Inl e \<Rightarrow> Inl e | Inr us \<Rightarrow> Inr (u # us)))"

definition checkEnv :: "jsval \<Rightarrow> js_error + user_info list" where
  "checkEnv userCookie =
     (if \<not> truthy (opt_member userCookie ''length'')
      then Inl (Error ''no available accounts found'')
      else case userCookie of JArr xs \<Rightarrow> construct_all 0 xs | v \<Rightarrow> Inl TypeError)"

text \<open>
  The state of the run: the lines of \<open>$.notifyMsg\<close>, \<open>$.succCount\<close>, the world, and a
  trace of the workflow steps \<open>main\<close> has called, each with the account's number and the
  value of its \<open>ckStatus\<close> at the moment of the call. A line is kept by what it prints:
  the success line prints the user name, the first balance, a sign and the difference;
  the failure line prints the user name.
\<close>

datatype step_name = GetBean | Signin | AlipayTask | Step | PoolSign | Bet

datatype line = Points jsval "num option" bool num | Login_needed jsval

record orchestra =
  notifyMsg :: "line list"
  succCount :: nat
  net_world :: world
  trace :: "(nat \<times> step_name \<times> bool) list"

definition start :: orchestra where
  "start = \<lparr>notifyMsg = [], succCount = 0, net_world = \<lparr>issued = []\<rparr>, trace = []\<rparr>"

definition perform ::
  "step_name \<Rightarrow> (user_info \<Rightarrow> world \<Rightarrow> 'r \<times> user_info \<times> world) \<Rightarrow> user_info \<Rightarrow> orchestra
     \<Rightarrow> 'r \<times> user_info \<times> orchestra" where
  "perform s f u st =
     (let (r, u', w') = f u (net_world st)
      in (r, u', st\<lparr>net_world := w', trace := trace st @ [(index u, s, ckStatus u)]\<rparr>))"

text \<open>\<^verbatim>\<open>for (let i = 1; i <= 3; i++) { let res = await user.step(); if (res) break; }\<close>\<close>

fun step_loop :: "nat \<Rightarrow> network \<Rightarrow> user_info \<Rightarrow> orchestra \<Rightarrow> user_info \<times> orchestra" where
  "step_loop 0 net u st = (u, st)"
| "step_loop (Suc n) net u st =
     (let (res, u', st') = perform Step (step net) u st
      in if res then (u', st') else step_loop n net u' st')"

text \<open>
  One turn of the loop of \<open>main\<close>:
  \<^verbatim>\<open>try { let pointF = await user.getBean();
      if (user.ckStatus) {
        await user.signin(); await user.alipayTask();
        for (let i = 1; i <= 3; i++) { let res = await user.step(); if (res) break; }
        await user.poolSign(); await user.bet();
        let pointE = await user.getBean();
        let str = pointE >= pointF ? '+' : '-';
        $.notifyMsg.push(`...${user.userName} ...${pointF}${str}${pointE - 0 - pointF}`);
        $.succCount++;
      } else {
        DoubleLog(`... ${user.userName ?? `...${index}`} ...`)
      } } catch (e) { throw e }\<close>
  No variable \<open>index\<close> is in scope in \<open>main\<close> (the account's number is
  \<open>user.index\<close>): when \<open>user.userName\<close> is \<open>undefined\<close> or \<open>null\<close>, evaluating the
  template throws a ReferenceError, which the \<open>catch\<close> throws again.
\<close>

definition of_opt :: "num option \<Rightarrow> num" where
  "of_opt x = (case x of None \<Rightarrow> NaN | Some n \<Rightarrow> n)"

definition run_account :: "network \<Rightarrow> user_info \<Rightarrow> orchestra \<Rightarrow> js_error + orchestra" where
  "run_account net u st =
     (let (pointF, u1, st1) = perform GetBean (getBean net) u st
      in if ckStatus u1 then
           (let (r2, u2, st2) = perform Signin (signin net) u1 st1;
                (r3, u3, st3) = perform AlipayTask (alipayTask net) u2 st2;
                (u4, st4) = step_loop 3 net u3 st3;
                (r5, u5, st5) = perform PoolSign (poolSign net) u4 st4;
                (r6, u6, st6) = perform Bet (bet net) u5 st5;
                (pointE, u7, st7) = perform GetBean (getBean net) u6 st6
            in Inr (st7\<lparr>notifyMsg := notifyMsg st7 @
                          [Points (userName u7) pointF (num_ge (of_opt pointE) (of_opt pointF))
                             (num_sub (num_sub (of_opt pointE) (Num 0)) (of_opt pointF))],
                        succCount := Suc (succCount st7)\<rparr>))
         else if userName u1 = JUndef \<or> userName u1 = JNull then Inl ReferenceError
         else Inr (st1\<lparr>notifyMsg := notifyMsg st1 @ [Login_needed (userName u1)]\<rparr>))"

fun main_loop :: "network \<Rightarrow> user_info list \<Rightarrow> orchestra \<Rightarrow> js_error + orchestra" where
  "main_loop net [] st = Inr st"
| "main_loop net (u # us) st =
     (case run_account net u st of Inl e \<Rightarrow> Inl e | Inr st' \<Rightarrow> main_loop net us st')"

text \<open>
  \<^verbatim>\<open>$.title = `...${$.userList.length}...${$.succCount}...${$.userList.length - 0 - $.succCount}...`
  await sendMsg($.notifyMsg.join("\n"), { $media: $.avatar });\<close>
  The title prints three numbers: the accounts, the successes and the failures.
\<close>

record title =
  total :: nat
  succeeded :: nat
  failed :: int

definition main :: "network \<Rightarrow> user_info list \<Rightarrow> js_error + (orchestra \<times> title)" where
  "main net userList =
     (case main_loop net userList start of
        Inl e \<Rightarrow> Inl e
      | Inr st \<Rightarrow>
          Inr (st, \<lparr>total = length userList, succeeded = succCount st,
                    failed = int (length userList) - int (succCount st)\<rparr>))"

text \<open>The trace without the account numbers and flags, and the failure lines.\<close>

definition steps_of :: "(nat \<times> step_name \<times> bool) list \<Rightarrow> step_name list" where
  "steps_of tr = map (\<lambda>e. fst (snd e)) tr"

definition is_failure :: "line \<Rightarrow> bool" where
  "is_failure l = (case l of Login_needed n \<Rightarrow> True | Points n f s d \<Rightarrow> False)"

text \<open>Accounts and networks for evaluating the model on examples.\<close>

definition account_one :: jsval where
  "account_one = JObj [(''token'', JStr ''bearer abc''), (''userName'', JStr ''u1'')]"

definition account_unnamed :: jsval where
  "account_unnamed = JObj [(''token'', JStr ''bearer xyz'')]"

definition net_500 :: network where
  "net_500 = (\<lambda>k. Resolved (JObj [(''code'', JStr ''500'')]))"

definition net_ok :: network where
  "net_ok = (\<lambda>k. Resolved (JObj [(''code'', JNum 200), (''message'', JStr ''ok''),
                                  (''data'', JObj [(''totalCount'', JNum 5)])]))"

definition net_signin_500 :: network where
  "net_signin_500 = (\<lambda>k. if k = 2 then Resolved (JObj [(''code'', JStr ''500'')])
                          else Resolved (JObj [(''code'', JNum 200), (''message'', JStr ''ok''),
                                  (''data'', JObj [(''totalCount'', JNum 5)])]))"

definition net_first_500 :: network where
  "net_first_500 = (\<lambda>k. if k < 2 then Resolved (JObj [(''code'', JStr ''500'')])
                          else Resolved (JObj [(''code'', JNum 200), (''message'', JStr ''ok''),
                                  (''data'', JObj [(''totalCount'', JNum 5)])]))"

definition user_one :: user_info where
  "user_one = \<lparr>index = 1, token = JStr ''bearer abc'', userId = JUndef, drawCount = 0,
                drawStatus = True, userName = JStr ''u1'', avatar = JUndef, ckStatus = True,
                authorization = JStr ''bearer abc''\<rparr>"

definition user_unnamed :: user_info where
  "user_unnamed = \<lparr>index = 1, token = JStr ''bearer xyz'', userId = JUndef, drawCount = 0,
                drawStatus = True, userName = JUndef, avatar = JUndef, ckStatus = True,
                authorization = JStr ''bearer xyz''\<rparr>"

definition user_two :: user_info where
  "user_two = \<lparr>index = 2, token = JStr ''bearer abc'', userId = JUndef, drawCount = 0,
                drawStatus = True, userName = JStr ''u1'', avatar = JUndef, ckStatus = True,
                authorization = JStr ''bearer abc''\<rparr>"

section \<open>Results about the accounts and the orchestrator\<close>

lemma fetch_ckStatus:
  "fetch net u w opts = (r, u', w') \<Longrightarrow> ckStatus u' \<Longrightarrow> ckStatus u"
  by (auto simp: fetch_def Let_def split: settled.splits if_splits)

lemma plain_call_ckStatus:
  "plain_call path net u w = (r, u', w') \<Longrightarrow> ckStatus u' \<Longrightarrow> ckStatus u"
  by (auto simp: plain_call_def Let_def split: prod.splits if_splits dest: fetch_ckStatus)

lemma step_ckStatus:
  "step net u w = (r, u', w') \<Longrightarrow> ckStatus u' \<Longrightarrow> ckStatus u"
  by (auto simp: step_def Let_def split: prod.splits if_splits sum.splits option.splits dest: fetch_ckStatus)

lemma doTask_ckStatus:
  "doTask n net u w = (r, u', w') \<Longrightarrow> ckStatus u' \<Longrightarrow> ckStatus u"
  by (auto simp: doTask_def Let_def split: prod.splits if_splits sum.splits dest: fetch_ckStatus)

lemma alipayTask_ckStatus:
  "alipayTask net u w = (r, u', w') \<Longrightarrow> ckStatus u' \<Longrightarrow> ckStatus u"
  by (auto simp: alipayTask_def Let_def split: prod.splits dest: doTask_ckStatus)

lemma draw_ckStatus:
  "draw net u w = (r, u', w') \<Longrightarrow> ckStatus u' \<Longrightarrow> ckStatus u"
  by (auto simp: draw_def Let_def split: prod.splits if_splits sum.splits dest: fetch_ckStatus)

lemma bean_ckStatus:
  "bean ty net u w = (r, u', w') \<Longrightarrow> ckStatus u' \<Longrightarrow> ckStatus u"
  by (auto simp: bean_def Let_def split: prod.splits if_splits dest: fetch_ckStatus)

lemma getBean_ckStatus:
  "getBean net u w = (r, u', w') \<Longrightarrow> ckStatus u' \<Longrightarrow> ckStatus u"
  by (auto simp: getBean_def Let_def split: prod.splits if_splits dest: bean_ckStatus)

lemma upDateToken_ckStatus:
  "upDateToken net u w = (r, u', w') \<Longrightarrow> ckStatus u' \<Longrightarrow> ckStatus u"
  by (auto simp: upDateToken_def Let_def split: prod.splits if_splits jsval.splits dest: fetch_ckStatus)

lemma UserInfo_ckStatus: "UserInfo idx user = Inr u \<Longrightarrow> ckStatus u"
  by (auto simp: UserInfo_def split: sum.splits)

lemma fetch_same:
  "fetch net u w opts = (r, u', w') \<Longrightarrow> index u' = index u \<and> userName u' = userName u"
  by (auto simp: fetch_def Let_def split: settled.splits if_splits)

lemma bean_same:
  "bean ty net u w = (r, u', w') \<Longrightarrow> index u' = index u \<and> userName u' = userName u"
  by (auto simp: bean_def Let_def split: prod.splits if_splits dest!: fetch_same)

lemma getBean_same:
  "getBean net u w = (r, u', w') \<Longrightarrow> index u' = index u \<and> userName u' = userName u"
  by (auto simp: getBean_def Let_def split: prod.splits if_splits dest!: bean_same)

lemma perform_trace:
  "perform s f u st = (r, u', st') \<Longrightarrow>
     trace st' = trace st @ [(index u, s, ckStatus u)]
     \<and> notifyMsg st' = notifyMsg st \<and> succCount st' = succCount st"
  by (auto simp: perform_def Let_def split: prod.splits)

lemma perform_result:
  "perform s f u st = (r, u', st') \<Longrightarrow> (r, u', net_world st') = f u (net_world st)"
  by (auto simp: perform_def Let_def split: prod.splits)

lemma step_loop_trace:
  "step_loop n net u st = (u', st') \<Longrightarrow>
     \<exists>k. k \<le> n \<and> (0 < n \<longrightarrow> 0 < k)
       \<and> steps_of (trace st') = steps_of (trace st) @ replicate k Step
       \<and> notifyMsg st' = notifyMsg st \<and> succCount st' = succCount st"
proof (induction n arbitrary: u st)
  case 0
  then show ?case by (auto simp: steps_of_def)
next
  case (Suc n)
  obtain res u1 st1 where p: "perform Step (step net) u st = (res, u1, st1)"
    by (metis prod_cases3)
  note t = perform_trace [OF p]
  show ?case
  proof (cases res)
    case True
    then have "u' = u1" "st' = st1" using Suc.prems p by auto
    then show ?thesis using t by (intro exI [of _ 1]) (auto simp: steps_of_def)
  next
    case False
    then have "step_loop n net u1 st1 = (u', st')" using Suc.prems p by auto
    from Suc.IH [OF this] obtain k where k: "k \<le> n"
      "steps_of (trace st') = steps_of (trace st1) @ replicate k Step"
      "notifyMsg st' = notifyMsg st1" "succCount st' = succCount st1" by blast
    show ?thesis using k t
      by (intro exI [of _ "Suc k"]) (auto simp: steps_of_def)
  qed
qed

lemma run_account_failed:
  assumes g: "getBean net u (net_world st) = (pointF, u1, w1)" and f: "\<not> ckStatus u1"
  shows "run_account net u st =
           (if userName u = JUndef \<or> userName u = JNull then Inl ReferenceError
            else Inr (st\<lparr>net_world := w1, trace := trace st @ [(index u, GetBean, ckStatus u)],
                         notifyMsg := notifyMsg st @ [Login_needed (userName u)]\<rparr>))"
proof -
  have n: "userName u1 = userName u" using getBean_same [OF g] by simp
  have p: "perform GetBean (getBean net) u st
             = (pointF, u1, st\<lparr>net_world := w1, trace := trace st @ [(index u, GetBean, ckStatus u)]\<rparr>)"
    using g by (simp add: perform_def)
  show ?thesis using f n by (simp add: run_account_def p)
qed

lemma run_account_passed:
  assumes g: "getBean net u (net_world st) = (pointF, u1, w1)" and c: "ckStatus u1"
  shows "\<exists>st' k. run_account net u st = Inr st' \<and> 1 \<le> k \<and> k \<le> 3
           \<and> steps_of (trace st') = steps_of (trace st) @ [GetBean, Signin, AlipayTask]
                 @ replicate k Step @ [PoolSign, Bet, GetBean]
           \<and> succCount st' = Suc (succCount st)
           \<and> length (notifyMsg st') = Suc (length (notifyMsg st))"
proof -
  obtain st1 where p1: "perform GetBean (getBean net) u st = (pointF, u1, st1)"
    using g by (simp add: perform_def)
  obtain r2 u2 st2 where p2: "perform Signin (signin net) u1 st1 = (r2, u2, st2)"
    by (metis prod_cases3)
  obtain r3 u3 st3 where p3: "perform AlipayTask (alipayTask net) u2 st2 = (r3, u3, st3)"
    by (metis prod_cases3)
  obtain u4 st4 where p4: "step_loop 3 net u3 st3 = (u4, st4)"
    by (metis surj_pair)
  obtain r5 u5 st5 where p5: "perform PoolSign (poolSign net) u4 st4 = (r5, u5, st5)"
    by (metis prod_cases3)
  obtain r6 u6 st6 where p6: "perform Bet (bet net) u5 st5 = (r6, u6, st6)"
    by (metis prod_cases3)
  obtain pointE u7 st7 where p7: "perform GetBean (getBean net) u6 st6 = (pointE, u7, st7)"
    by (metis prod_cases3)
  let ?st' = "st7\<lparr>notifyMsg := notifyMsg st7 @
                          [Points (userName u7) pointF (num_ge (of_opt pointE) (of_opt pointF))
                             (num_sub (num_sub (of_opt pointE) (Num 0)) (of_opt pointF))],
                        succCount := Suc (succCount st7)\<rparr>"
  have r: "run_account net u st = Inr ?st'"
    using c by (simp add: run_account_def p1 p2 p3 p4 p5 p6 p7)
  from step_loop_trace [OF p4] obtain k where k: "k \<le> 3" "0 < k"
    "steps_of (trace st4) = steps_of (trace st3) @ replicate k Step"
    "notifyMsg st4 = notifyMsg st3" "succCount st4 = succCount st3" by auto
  note t = perform_trace [OF p1] perform_trace [OF p2] perform_trace [OF p3]
           perform_trace [OF p5] perform_trace [OF p6] perform_trace [OF p7]
  have tr: "steps_of (trace ?st') = steps_of (trace st) @ [GetBean, Signin, AlipayTask]
                 @ replicate k Step @ [PoolSign, Bet, GetBean]"
    using t k(3) by (simp add: steps_of_def)
  have "succCount ?st' = Suc (succCount st)" using t k by simp
  moreover have "length (notifyMsg ?st') = Suc (length (notifyMsg st))" using t k by simp
  ultimately show ?thesis using r tr k(1,2)
    by (intro exI [of _ ?st'] exI [of _ k]) simp
qed

text \<open>
  C10: \<open>ckStatus\<close> is \<open>true\<close> in every account the constructor builds, and every
  workflow method (\<open>fetch\<close>, \<open>upDateToken\<close>, \<open>signin\<close>, \<open>step\<close>, \<open>doTask\<close> and
  \<open>alipayTask\<close> which calls it, \<open>bet\<close>, \<open>poolSign\<close>, \<open>draw\<close>, \<open>getBean\<close>, \<open>bean\<close>)
  leaves the flag as it is or sets it to \<open>false\<close>: if the flag is \<open>true\<close> after the
  call it was \<open>true\<close> before, whatever the network answers. So an account marked failed
  stays failed.
\<close>

theorem ckStatus_monotone:
  "(UserInfo idx user = Inr u0 \<longrightarrow> ckStatus u0)
   \<and> (ckStatus (fst (snd (fetch net u w opts))) \<longrightarrow> ckStatus u)
   \<and> (ckStatus (fst (snd (upDateToken net u w))) \<longrightarrow> ckStatus u)
   \<and> (ckStatus (fst (snd (signin net u w))) \<longrightarrow> ckStatus u)
   \<and> (ckStatus (fst (snd (step net u w))) \<longrightarrow> ckStatus u)
   \<and> (ckStatus (fst (snd (doTask taskId net u w))) \<longrightarrow> ckStatus u)
   \<and> (ckStatus (fst (snd (alipayTask net u w))) \<longrightarrow> ckStatus u)
   \<and> (ckStatus (fst (snd (bet net u w))) \<longrightarrow> ckStatus u)
   \<and> (ckStatus (fst (snd (poolSign net u w))) \<longrightarrow> ckStatus u)
   \<and> (ckStatus (fst (snd (draw net u w))) \<longrightarrow> ckStatus u)
   \<and> (ckStatus (fst (snd (getBean net u w))) \<longrightarrow> ckStatus u)
   \<and> (ckStatus (fst (snd (bean ty net u w))) \<longrightarrow> ckStatus u)"
proof (intro conjI impI)
  show "UserInfo idx user = Inr u0 \<Longrightarrow> ckStatus u0" by (rule UserInfo_ckStatus)
  show "ckStatus (fst (snd (fetch net u w opts))) \<Longrightarrow> ckStatus u"
    by (cases "fetch net u w opts") (auto dest: fetch_ckStatus)
  show "ckStatus (fst (snd (upDateToken net u w))) \<Longrightarrow> ckStatus u"
    by (cases "upDateToken net u w") (auto dest: upDateToken_ckStatus)
  show "ckStatus (fst (snd (signin net u w))) \<Longrightarrow> ckStatus u"
    by (cases "signin net u w") (auto simp: signin_def dest: plain_call_ckStatus)
  show "ckStatus (fst (snd (step net u w))) \<Longrightarrow> ckStatus u"
    by (cases "step net u w") (auto dest: step_ckStatus)
  show "ckStatus (fst (snd (doTask taskId net u w))) \<Longrightarrow> ckStatus u"
    by (cases "doTask taskId net u w") (auto dest: doTask_ckStatus)
  show "ckStatus (fst (snd (alipayTask net u w))) \<Longrightarrow> ckStatus u"
    by (cases "alipayTask net u w") (auto dest: alipayTask_ckStatus)
  show "ckStatus (fst (snd (bet net u w))) \<Longrightarrow> ckStatus u"
    by (cases "bet net u w") (auto simp: bet_def dest: plain_call_ckStatus)
  show "ckStatus (fst (snd (poolSign net u w))) \<Longrightarrow> ckStatus u"
    by (cases "poolSign net u w") (auto simp: poolSign_def dest: plain_call_ckStatus)
  show "ckStatus (fst (snd (draw net u w))) \<Longrightarrow> ckStatus u"
    by (cases "draw net u w") (auto dest: draw_ckStatus)
  show "ckStatus (fst (snd (getBean net u w))) \<Longrightarrow> ckStatus u"
    by (cases "getBean net u w") (auto dest: getBean_ckStatus)
  show "ckStatus (fst (snd (bean ty net u w))) \<Longrightarrow> ckStatus u"
    by (cases "bean ty net u w") (auto dest: bean_ckStatus)
qed

theorem ckStatus_monotone_witness:
  "UserInfo 1 account_one = Inr user_one \<and> ckStatus user_one
   \<and> \<not> ckStatus (fst (snd (signin net_500 user_one \<lparr>issued = []\<rparr>)))
   \<and> \<not> ckStatus (fst (snd (bet net_ok (fst (snd (signin net_500 user_one \<lparr>issued = []\<rparr>)))
                                 (snd (snd (signin net_500 user_one \<lparr>issued = []\<rparr>))))))
   \<and> ckStatus (fst (snd (getBean net_ok user_one \<lparr>issued = []\<rparr>)))"
proof -
  have c: "UserInfo 1 account_one = Inr user_one" by code_simp
  have f: "\<not> ckStatus (fst (snd (signin net_500 user_one \<lparr>issued = []\<rparr>)))" by code_simp
  have g: "ckStatus (fst (snd (getBean net_ok user_one \<lparr>issued = []\<rparr>)))" by code_simp
  from ckStatus_monotone [of 1 account_one user_one net_ok
         "fst (snd (signin net_500 user_one \<lparr>issued = []\<rparr>))"
         "snd (snd (signin net_500 user_one \<lparr>issued = []\<rparr>))"]
       ckStatus_monotone [of 1 account_one user_one net_ok user_one "\<lparr>issued = []\<rparr>"]
  show ?thesis using c f g by blast
qed

text \<open>
  C8, as stated, fails: \<open>main\<close> reads the flag once, after the first \<open>getBean\<close>. With
  one account whose balance queries succeed and whose \<open>signin\<close> is answered with code
  500, \<open>signin\<close> sets the flag to \<open>false\<close>, and \<open>alipayTask\<close>, three \<open>step\<close> calls,
  \<open>poolSign\<close>, \<open>bet\<close> and the closing \<open>getBean\<close> are still called, each with the flag
  \<open>false\<close> at the moment of the call.
\<close>

theorem steps_after_flag_false_counterexample:
  "checkEnv (JArr [account_one]) = Inr [user_one]
   \<and> map_sum id (\<lambda>r. trace (fst r)) (main net_signin_500 [user_one])
       = Inr [(1, GetBean, True), (1, Signin, True), (1, AlipayTask, False), (1, Step, False),
              (1, Step, False), (1, Step, False), (1, PoolSign, False), (1, Bet, False),
              (1, GetBean, False)]"
  by code_simp

text \<open>
  C8, amended: the flag decides once, right after the first \<open>getBean\<close> of the account.
  If it is \<open>false\<close> there, a turn of the loop that completes has called no other step
  for the account. If it is \<open>true\<close> there, the turn completes and calls, in this order,
  \<open>signin\<close>, \<open>alipayTask\<close>, \<open>step\<close> between one and three times, \<open>poolSign\<close>,
  \<open>bet\<close> and \<open>getBean\<close>, whether or not one of them sets the flag to \<open>false\<close> on
  the way.
\<close>

theorem run_account_gate:
  "(\<not> ckStatus (fst (snd (getBean net u (net_world st)))) \<longrightarrow>
      (\<forall>st'. run_account net u st = Inr st' \<longrightarrow>
         trace st' = trace st @ [(index u, GetBean, ckStatus u)]))
   \<and> (ckStatus (fst (snd (getBean net u (net_world st)))) \<longrightarrow>
      (\<exists>st' k. run_account net u st = Inr st' \<and> 1 \<le> k \<and> k \<le> 3
         \<and> steps_of (trace st') = steps_of (trace st) @ [GetBean, Signin, AlipayTask]
               @ replicate k Step @ [PoolSign, Bet, GetBean]))"
proof -
  obtain pointF u1 w1 where g: "getBean net u (net_world st) = (pointF, u1, w1)"
    by (metis prod_cases3)
  have u1: "fst (snd (getBean net u (net_world st))) = u1" by (simp add: g)
  show ?thesis
  proof (cases "ckStatus u1")
    case True
    from run_account_passed [OF g True] show ?thesis unfolding u1 using True by blast
  next
    case False
    from run_account_failed [OF g False] show ?thesis unfolding u1 using False
      by (auto split: if_splits)
  qed
qed

theorem run_account_gate_witness:
  "\<not> ckStatus (fst (snd (getBean net_first_500 user_one (net_world start))))
   \<and> map_sum id trace (run_account net_first_500 user_one start) = Inr [(1, GetBean, True)]
   \<and> ckStatus (fst (snd (getBean net_signin_500 user_one (net_world start))))
   \<and> (\<exists>st' k. run_account net_signin_500 user_one start = Inr st' \<and> 1 \<le> k \<and> k \<le> 3
         \<and> steps_of (trace st') = [GetBean, Signin, AlipayTask]
               @ replicate k Step @ [PoolSign, Bet, GetBean])"
proof -
  have a: "\<not> ckStatus (fst (snd (getBean net_first_500 user_one (net_world start))))"
    by code_simp
  have "\<not> isl (run_account net_first_500 user_one start)"
    by code_simp
  then obtain st1 where b: "run_account net_first_500 user_one start = Inr st1"
    by (cases "run_account net_first_500 user_one start") auto
  have c: "ckStatus (fst (snd (getBean net_signin_500 user_one (net_world start))))"
    by code_simp
  have e: "trace start = []" "index user_one = 1" "ckStatus user_one"
    by (simp_all add: start_def user_one_def)
  from run_account_gate [of net_first_500 user_one start] a b
  have "trace st1 = [(1, GetBean, True)]"
    using e by auto
  then have "map_sum id trace (run_account net_first_500 user_one start) = Inr [(1, GetBean, True)]"
    by (simp add: b)
  moreover from run_account_gate [of net_signin_500 user_one start] c
  have "\<exists>st' k. run_account net_signin_500 user_one start = Inr st' \<and> 1 \<le> k \<and> k \<le> 3
         \<and> steps_of (trace st') = [GetBean, Signin, AlipayTask]
               @ replicate k Step @ [PoolSign, Bet, GetBean]"
    using e by (simp add: steps_of_def)
  ultimately show ?thesis using a c by blast
qed

text \<open>
  Whenever \<open>main\<close> completes it has appended one line per account, and the successes it
  counts and the failure lines add up to the number of accounts. It completes when every
  account has a \<open>userName\<close>.
\<close>

lemma run_account_lines:
  assumes "run_account net u st = Inr st'"
  shows "length (notifyMsg st') = Suc (length (notifyMsg st))
    \<and> succCount st' + length (filter is_failure (notifyMsg st'))
        = Suc (succCount st + length (filter is_failure (notifyMsg st)))"
proof -
  obtain pointF u1 w1 where g: "getBean net u (net_world st) = (pointF, u1, w1)"
    by (metis prod_cases3)
  show ?thesis
  proof (cases "ckStatus u1")
    case True
    obtain st1 where p1: "perform GetBean (getBean net) u st = (pointF, u1, st1)"
      using g by (simp add: perform_def)
    obtain r2 u2 st2 where p2: "perform Signin (signin net) u1 st1 = (r2, u2, st2)"
      by (metis prod_cases3)
    obtain r3 u3 st3 where p3: "perform AlipayTask (alipayTask net) u2 st2 = (r3, u3, st3)"
      by (metis prod_cases3)
    obtain u4 st4 where p4: "step_loop 3 net u3 st3 = (u4, st4)"
      by (metis surj_pair)
    obtain r5 u5 st5 where p5: "perform PoolSign (poolSign net) u4 st4 = (r5, u5, st5)"
      by (metis prod_cases3)
    obtain r6 u6 st6 where p6: "perform Bet (bet net) u5 st5 = (r6, u6, st6)"
      by (metis prod_cases3)
    obtain pointE u7 st7 where p7: "perform GetBean (getBean net) u6 st6 = (pointE, u7, st7)"
      by (metis prod_cases3)
    have r: "st' = st7\<lparr>notifyMsg := notifyMsg st7 @
                          [Points (userName u7) pointF (num_ge (of_opt pointE) (of_opt pointF))
                             (num_sub (num_sub (of_opt pointE) (Num 0)) (of_opt pointF))],
                        succCount := Suc (succCount st7)\<rparr>"
      using True assms by (simp add: run_account_def p1 p2 p3 p4 p5 p6 p7)
    from step_loop_trace [OF p4] have k: "notifyMsg st4 = notifyMsg st3" "succCount st4 = succCount st3"
      by auto
    note t = perform_trace [OF p1] perform_trace [OF p2] perform_trace [OF p3]
             perform_trace [OF p5] perform_trace [OF p6] perform_trace [OF p7]
    show ?thesis using r t k by (simp add: is_failure_def)
  next
    case False
    from run_account_failed [OF g False] assms show ?thesis
      by (auto simp: is_failure_def split: if_splits)
  qed
qed

lemma main_loop_lines:
  "main_loop net us st = Inr st' \<Longrightarrow>
     length (notifyMsg st') = length (notifyMsg st) + length us
     \<and> succCount st' + length (filter is_failure (notifyMsg st'))
        = succCount st + length (filter is_failure (notifyMsg st)) + length us"
proof (induction us arbitrary: st)
  case Nil
  then show ?case by simp
next
  case (Cons u us)
  then obtain st1 where r: "run_account net u st = Inr st1" and m: "main_loop net us st1 = Inr st'"
    by (auto split: sum.splits)
  from run_account_lines [OF r] Cons.IH [OF m] show ?case by simp
qed

lemma main_lines:
  assumes "main net us = Inr (st, t)"
  shows "length (notifyMsg st) = length us
     \<and> succeeded t + length (filter is_failure (notifyMsg st)) = length us
     \<and> total t = length us"
proof -
  from assms have m: "main_loop net us start = Inr st"
    and t: "t = \<lparr>total = length us, succeeded = succCount st,
                    failed = int (length us) - int (succCount st)\<rparr>"
    by (auto simp: main_def split: sum.splits)
  from main_loop_lines [OF m] show ?thesis by (simp add: t start_def)
qed

lemma run_account_named:
  assumes "userName u \<noteq> JUndef" and "userName u \<noteq> JNull"
  shows "\<exists>st'. run_account net u st = Inr st'"
proof -
  obtain pointF u1 w1 where g: "getBean net u (net_world st) = (pointF, u1, w1)"
    by (metis prod_cases3)
  show ?thesis
  proof (cases "ckStatus u1")
    case True
    from run_account_passed [OF g True] show ?thesis by blast
  next
    case False
    from run_account_failed [OF g False] assms show ?thesis by simp
  qed
qed

lemma main_named_completes:
  assumes "\<forall>u \<in> set us. userName u \<noteq> JUndef \<and> userName u \<noteq> JNull"
  shows "\<exists>st t. main net us = Inr (st, t) \<and> length (notifyMsg st) = length us
           \<and> succeeded t + length (filter is_failure (notifyMsg st)) = length us"
proof -
  have "\<exists>st'. main_loop net us st = Inr st'" for st
    using assms
  proof (induction us arbitrary: st)
    case Nil
    then show ?case by simp
  next
    case (Cons u us)
    then obtain st1 where "run_account net u st = Inr st1"
      using run_account_named [of u net st] by auto
    then show ?case using Cons by simp
  qed
  then obtain st where "main_loop net us start = Inr st" by blast
  then have m: "main net us = Inr (st, \<lparr>total = length us, succeeded = succCount st,
                    failed = int (length us) - int (succCount st)\<rparr>)"
    by (simp add: main_def)
  from main_lines [OF m] m show ?thesis by auto
qed

text \<open>
  C1: the code does not do what the claim says when the account whose login fails has no
  \<open>userName\<close>. Two stored accounts, the first without a \<open>userName\<close>; the first two
  requests (the balance queries of the first account) are answered with code 500, all
  later ones succeed. \<open>main\<close> throws a ReferenceError in the failure branch of the first
  account: no line is appended, the second account is never processed, and no title is
  composed.
\<close>

theorem main_unnamed_failure_aborts:
  "checkEnv (JArr [account_unnamed, account_one]) = Inr [user_unnamed, user_two]
   \<and> main net_first_500 [user_unnamed, user_two] = Inl ReferenceError"
  by code_simp

section \<open>The key-value store: \<open>lodash_get\<close>, \<open>lodash_set\<close>, \<open>getdata\<close>, \<open>setdata\<close>\<close>

text \<open>
  The reader's path: \<^verbatim>\<open>e.replace(/\[(\d+)\]/g, ".$1").split(".")\<close>. The regular expression
  matches a \<open>[\<close>, one or more digits and a \<open>]\<close>; each match becomes a dot and the
  digits. \<open>split(".")\<close> cuts at every dot and keeps empty pieces.
\<close>

function replace_brackets :: "string \<Rightarrow> string" where
  "replace_brackets [] = []"
| "replace_brackets (c # cs) =
     (if c = CHR ''['' \<and> takeWhile is_digit cs \<noteq> []
         \<and> (case dropWhile is_digit cs of [] \<Rightarrow> False | x # xs \<Rightarrow> x = CHR '']'')
      then CHR ''.'' # takeWhile is_digit cs @ replace_brackets (tl (dropWhile is_digit cs))
      else c # replace_brackets cs)"
  by pat_completeness auto
termination
proof (relation "measure length")
  show "wf (measure length)" by simp
next
  fix c :: char and cs :: string
  have "length (dropWhile is_digit cs) \<le> length cs"
    by (rule length_dropWhile_le)
  then have "length (tl (dropWhile is_digit cs)) \<le> length cs"
    by simp
  then show "(tl (dropWhile is_digit cs), c # cs) \<in> measure length" by simp
next
  fix c :: char and cs :: string
  show "(cs, c # cs) \<in> measure length" by simp
qed

fun split_dot :: "string \<Rightarrow> string list" where
  "split_dot [] = [[]]"
| "split_dot (c # cs) =
     (if c = CHR ''.'' then [] # split_dot cs
      else (case split_dot cs of [] \<Rightarrow> [[c]] | x # xs \<Rightarrow> (c # x) # xs))"

text \<open>
  The writer's path: \<^verbatim>\<open>e.toString().match(/[^.[\]]+/g) || []\<close>, the maximal runs of
  characters other than \<open>.\<close>, \<open>[\<close> and \<open>]\<close>.
\<close>

definition is_sep :: "char \<Rightarrow> bool" where
  "is_sep c = (c = CHR ''.'' \<or> c = CHR ''['' \<or> c = CHR '']'')"

fun tokens :: "string \<Rightarrow> string list" where
  "tokens [] = []"
| "tokens (c # cs) =
     (if is_sep c then tokens cs
      else if cs = [] \<or> is_sep (hd cs) then [c] # tokens cs
      else (case tokens cs of [] \<Rightarrow> [[c]] | x # xs \<Rightarrow> (c # x) # xs))"

text \<open>
  What the store functions take from the JavaScript engine besides \<open>JSON\<close>. The paths
  of \<open>lodash_get\<close> and \<open>lodash_set\<close> and the keys of the store are arbitrary strings,
  so the code can meet three things that belong to the engine, not to the script; they
  are parameters of the model:
  \<^item> \<open>inherits t k\<close>: \<open>Object(t)\<close> has a member named \<open>k\<close> that is not its own but
    comes from a prototype (\<open>constructor\<close>, \<open>__proto__\<close>, \<open>toString\<close>, for an array
    \<open>map\<close>, and so on);
  \<^item> \<open>ToNumber s\<close>: the number the string \<open>s\<close> stands for (\<open>+s\<close>): not a number,
    infinite, an integer, or a finite number that is not an integer (whose value plays
    no part in the code);
  \<^item> \<open>max_string\<close>: the greatest length of a string; \<open>JSON.stringify\<close> throws a
    RangeError when its result would be longer.

  The code returns, throws, or goes on with a built-in object of the engine: reading an
  inherited member gives a function or a prototype object, and what \<open>lodash_get\<close> finds
  inside it, or what an assignment inside it does (in the strict mode of the class body:
  a TypeError for a read-only property, a change to the built-in object otherwise), is
  decided by the engine's objects. The model stops there with the outcome \<open>Built_in\<close>.
  An assignment \<open>t[k] = v\<close> where \<open>k\<close> is not an own property of \<open>t\<close> and is inherited
  is counted among these (it may reach a setter, as for \<open>__proto__\<close>, or a read-only
  member).
\<close>

datatype jsnum = Not_a_number | Infinite | Fraction | Integer int

record engine =
  inherits :: "jsval \<Rightarrow> string \<Rightarrow> bool"
  ToNumber :: "string \<Rightarrow> jsnum"
  max_string :: int

datatype 'a outcome = Returns 'a | Throws js_error | Built_in

text \<open>
  \<open>has_own t k\<close>: \<open>k\<close> is an own property of \<open>Object(t)\<close>; \<open>inherited_member E t k\<close>:
  it is not, and \<open>Object(t)\<close> inherits a member of that name. \<open>read_member E t k\<close> is
  \<open>Object(t)[k]\<close>: \<open>None\<close> when the member is inherited, otherwise the own property,
  or \<open>undefined\<close> when there is no member of that name at all.
\<close>

fun has_own :: "jsval \<Rightarrow> string \<Rightarrow> bool" where
  "has_own (JObj kvs) k = (k \<in> fst ` set kvs)"
| "has_own (JArr xs) k = (case array_index k of Some i \<Rightarrow> i < length xs | None \<Rightarrow> k = ''length'')"
| "has_own (JStr s) k = (case array_index k of Some i \<Rightarrow> i < length s | None \<Rightarrow> k = ''length'')"
| "has_own t k = False"

definition inherited_member :: "engine \<Rightarrow> jsval \<Rightarrow> string \<Rightarrow> bool" where
  "inherited_member E t k = (\<not> has_own t k \<and> inherits E t k)"

definition read_member :: "engine \<Rightarrow> jsval \<Rightarrow> string \<Rightarrow> jsval option" where
  "read_member E t k =
     (if inherited_member E t k then None
      else if has_own t k then Some (property t k)
      else Some JUndef)"

text \<open>
  \<^verbatim>\<open>lodash_get(t, e, s) { const i = e.replace(/\[(\d+)\]/g, ".$1").split("."); let o = t;
      for (const t of i) if (o = Object(o)[t], void 0 === o) return s; return o }\<close>
\<close>

fun get_walk :: "engine \<Rightarrow> jsval \<Rightarrow> string list \<Rightarrow> jsval \<Rightarrow> jsval outcome" where
  "get_walk E t [] s = Returns t"
| "get_walk E t (k # ks) s =
     (case read_member E t k of
        None \<Rightarrow> Built_in
      | Some x \<Rightarrow> if x = JUndef then Returns s else get_walk E x ks s)"

definition lodash_get :: "engine \<Rightarrow> jsval \<Rightarrow> string \<Rightarrow> jsval \<Rightarrow> jsval outcome" where
  "lodash_get E t e s = get_walk E t (split_dot (replace_brackets e)) s"

text \<open>
  \<^verbatim>\<open>lodash_set(t, e, s) { return Object(t) !== t || (Array.isArray(e) ||
      (e = e.toString().match(/[^.[\]]+/g) || []),
      e.slice(0, -1).reduce(((t, s, i) => Object(t[s]) === t[s] ? t[s]
          : t[s] = Math.abs(e[i + 1]) >> 0 == +e[i + 1] ? [] : {}), t)[e[e.length - 1]] = s), t }\<close>

  \<open>Math.abs(x) >> 0 == +x\<close> on a string \<open>x\<close>: the number \<open>x\<close> stands for is an
  integer and is its own absolute value cut to 32 bits (\<open>>> 0\<close> is ToInt32; for a
  fraction, an infinite number and \<open>NaN\<close> the comparison fails). \<open>fresh\<close> is the
  container made for a missing step of the path.
\<close>

definition to_int32 :: "int \<Rightarrow> int" where
  "to_int32 m = (let r = m mod 4294967296 in if 2147483648 \<le> r then r - 4294967296 else r)"

definition index_like :: "engine \<Rightarrow> string \<Rightarrow> bool" where
  "index_like E x =
     (case ToNumber E x of
        Integer n \<Rightarrow> to_int32 (abs n) = n
      | other \<Rightarrow> False)"

definition fresh :: "engine \<Rightarrow> string \<Rightarrow> jsval" where
  "fresh E x = (if index_like E x then JArr [] else JObj [])"

text \<open>
  The assignment \<open>t[k] = v\<close> on an object or an array, as \<open>JSON.stringify\<close> will see
  the result (\<open>setdata\<close> serialises the document right after \<open>lodash_set\<close>, and nothing
  else reads it). On an array, an array-index key writes the element, and the elements
  skipped before it are holes, which \<open>JSON.stringify\<close> prints as \<open>null\<close>; the key
  \<open>length\<close> resizes the array, or throws a RangeError when the value, as a number, is
  not an integer between 0 and \<open>2^32 - 1\<close>; any other key makes a property that
  \<open>JSON.stringify\<close> does not print, so the array stays as it is. This is \<open>put\<close>;
  \<open>assign\<close> is \<open>put\<close> for a key that is not an inherited member.
  \<open>number_of\<close> is ToNumber on a value: an array or a plain object goes through its
  string.
\<close>

fun number_of :: "engine \<Rightarrow> jsval \<Rightarrow> jsnum" where
  "number_of E JUndef = Not_a_number"
| "number_of E JNull = Integer 0"
| "number_of E (JBool b) = Integer (if b then 1 else 0)"
| "number_of E (JNum n) = Integer n"
| "number_of E (JStr s) = ToNumber E s"
| "number_of E (JArr xs) = ToNumber E (to_string (JArr xs))"
| "number_of E (JObj kvs) = ToNumber E (to_string (JObj kvs))"

definition set_length :: "engine \<Rightarrow> jsval list \<Rightarrow> jsval \<Rightarrow> jsval outcome" where
  "set_length E xs v =
     (case number_of E v of
        Integer n \<Rightarrow>
          if 0 \<le> n \<and> n < 4294967296
          then Returns (JArr (take (nat n) xs @ replicate (nat n - length xs) JNull))
          else Throws RangeError
      | other \<Rightarrow> Throws RangeError)"

fun put :: "engine \<Rightarrow> jsval \<Rightarrow> string \<Rightarrow> jsval \<Rightarrow> jsval outcome" where
  "put E (JObj kvs) k v = Returns (JObj (obj_put kvs k v))"
| "put E (JArr xs) k v =
     (case array_index k of
        Some i \<Rightarrow> Returns (JArr (if i < length xs then xs[i := v]
                                  else xs @ replicate (i - length xs) JNull @ [v]))
      | None \<Rightarrow> if k = ''length'' then set_length E xs v else Returns (JArr xs))"
| "put E t k v = Returns t"

definition assign :: "engine \<Rightarrow> jsval \<Rightarrow> string \<Rightarrow> jsval \<Rightarrow> jsval outcome" where
  "assign E t k v = (if inherited_member E t k then Built_in else put E t k v)"

text \<open>
  Whether \<open>t[k]\<close> is a place \<open>JSON.stringify\<close> prints, and the document with the value
  at that place exchanged: what the in-place change of a nested object or array amounts
  to for the enclosing one.
\<close>

fun holds :: "jsval \<Rightarrow> string \<Rightarrow> bool" where
  "holds (JObj kvs) k = True"
| "holds (JArr xs) k = (array_index k \<noteq> None)"
| "holds t k = False"

fun replace :: "jsval \<Rightarrow> string \<Rightarrow> jsval \<Rightarrow> jsval" where
  "replace (JObj kvs) k c = JObj (obj_put kvs k c)"
| "replace (JArr xs) k c =
     (case array_index k of
        Some i \<Rightarrow> JArr (if i < length xs then xs[i := c] else xs)
      | None \<Rightarrow> JArr xs)"
| "replace t k c = t"

text \<open>
  The \<open>reduce\<close> and the final assignment, along the segments of the path. With no
  segment at all the final assignment is \<open>t[undefined] = s\<close>, which writes the key
  \<open>"undefined"\<close>.
\<close>

fun set_walk :: "engine \<Rightarrow> jsval \<Rightarrow> string list \<Rightarrow> jsval \<Rightarrow> jsval outcome" where
  "set_walk E t [] v = assign E t ''undefined'' v"
| "set_walk E t [k] v = assign E t k v"
| "set_walk E t (k # k' # ks) v =
     (case read_member E t k of
        None \<Rightarrow> Built_in
      | Some child \<Rightarrow>
          if is_object child
          then (case set_walk E child (k' # ks) v of
                  Returns c \<Rightarrow> Returns (replace t k c)
                | Throws e \<Rightarrow> Throws e
                | Built_in \<Rightarrow> Built_in)
          else (case assign E t k (fresh E k') of
                  Returns t' \<Rightarrow>
                    (case set_walk E (fresh E k') (k' # ks) v of
                       Returns c \<Rightarrow> Returns (if holds t k then replace t' k c else t')
                     | Throws e \<Rightarrow> Throws e
                     | Built_in \<Rightarrow> Built_in)
                | Throws e \<Rightarrow> Throws e
                | Built_in \<Rightarrow> Built_in))"

definition lodash_set :: "engine \<Rightarrow> jsval \<Rightarrow> string \<Rightarrow> jsval \<Rightarrow> jsval outcome" where
  "lodash_set E t e s = (if is_object t then set_walk E t (tokens e) s else Returns t)"

text \<open>
  The backing store maps keys to strings: the host's persistent store on Surge, Loon,
  Stash, Shadowrocket (\<open>$persistentStore\<close>) and Quantumult X (\<open>$prefs\<close>), taken to keep
  what it is given, to report success, and to answer \<open>null\<close> for a key it does not
  hold; the data file on Node.js, read and written whole at each access and taken to hold
  an object whose values are strings. On an unknown host there is only \<open>this.data\<close>,
  which is \<open>null\<close>: every read is \<open>null\<close> and \<open>setval\<close> writes nothing.
  \<^verbatim>\<open>getval(t) { switch (this.getEnv()) {
      case "Surge": case "Loon": case "Stash": case "Shadowrocket": return $persistentStore.read(t);
      case "Quantumult X": return $prefs.valueForKey(t);
      case "Node.js": return this.data = this.loaddata(), this.data[t];
      default: return this.data && this.data[t] || null } }
  setval(t, e) { switch (this.getEnv()) {
      case "Surge": case "Loon": case "Stash": case "Shadowrocket": return $persistentStore.write(t, e);
      case "Quantumult X": return $prefs.setValueForKey(t, e);
      case "Node.js": return this.data = this.loaddata(), this.data[e] = t, this.writedata(), !0;
      default: return this.data && this.data[e] || null } }\<close>
  On Node.js the keys are the properties of a plain object: a key the file does not
  hold reads as \<open>undefined\<close>, unless it names an inherited member (\<open>data["__proto__"]\<close>
  is \<open>Object.prototype\<close>, and \<open>data["__proto__"] = t\<close> stores nothing): reading or
  writing such a key is an outcome \<open>Built_in\<close>.
\<close>

type_synonym store = "string \<Rightarrow> string option"

definition held :: "globals \<Rightarrow> store \<Rightarrow> string \<Rightarrow> jsval" where
  "held g st t =
     (case getEnv g of
        None \<Rightarrow> JNull
      | Some host \<Rightarrow>
          (case st t of
             Some s \<Rightarrow> JStr s
           | None \<Rightarrow> if host = ''Node.js'' then JUndef else JNull))"

definition inherited_key :: "engine \<Rightarrow> globals \<Rightarrow> store \<Rightarrow> string \<Rightarrow> bool" where
  "inherited_key E g st t = (getEnv g = Some ''Node.js'' \<and> st t = None \<and> inherits E (JObj []) t)"

definition getval :: "engine \<Rightarrow> globals \<Rightarrow> store \<Rightarrow> string \<Rightarrow> jsval outcome" where
  "getval E g st t = (if inherited_key E g st t then Built_in else Returns (held g st t))"

definition setval :: "engine \<Rightarrow> globals \<Rightarrow> store \<Rightarrow> string \<Rightarrow> string \<Rightarrow> (bool \<times> store) outcome" where
  "setval E g st t e =
     (if inherited_key E g st e then Built_in
      else Returns (case getEnv g of None \<Rightarrow> (False, st) | Some host \<Rightarrow> (True, st(e \<mapsto> t))))"

text \<open>
  \<^verbatim>\<open>/^@(.*?)\.(.*?)$/.exec(t)\<close>: the key must start with \<open>@\<close>, contain a dot and no
  line terminator, since \<open>.\<close> matches any character but the line terminators: line
  feed, carriage return, U+2028 and U+2029 (the bytes E2 80 A8 and E2 80 A9 in UTF-8).
  The container is what stands before the first dot, the path is the rest. Where the
  expression does not match, \<open>exec\<close> returns \<open>null\<close> and the destructuring
  \<open>const [, s, i] = null\<close> throws a TypeError.
\<close>

fun has_line_terminator :: "string \<Rightarrow> bool" where
  "has_line_terminator [] = False"
| "has_line_terminator (c # cs) =
     (c = CHR 0x0A \<or> c = CHR 0x0D
      \<or> (c = CHR 0xE2 \<and> (take 2 cs = [CHR 0x80, CHR 0xA8] \<or> take 2 cs = [CHR 0x80, CHR 0xA9]))
      \<or> has_line_terminator cs)"

definition compound_address :: "string \<Rightarrow> (string \<times> string) option" where
  "compound_address t =
     (case t of
        [] \<Rightarrow> None
      | c # rest \<Rightarrow>
          if c \<noteq> CHR ''@'' \<or> has_line_terminator rest \<or> CHR ''.'' \<notin> set rest then None
          else Some (takeWhile (\<lambda>x. x \<noteq> CHR ''.'') rest,
                     tl (dropWhile (\<lambda>x. x \<noteq> CHR ''.'') rest)))"

definition starts_with_at :: "string \<Rightarrow> bool" where
  "starts_with_at t = (case t of [] \<Rightarrow> False | c # rest \<Rightarrow> c = CHR ''@'')"

text \<open>
  \<^verbatim>\<open>getdata(t) { let e = this.getval(t);
      if (/^@/.test(t)) { const [, s, i] = /^@(.*?)\.(.*?)$/.exec(t), o = s ? this.getval(s) : "";
        if (o) try { const t = JSON.parse(o); e = t ? this.lodash_get(t, i, "") : e }
               catch (t) { e = "" } }
      return e }\<close>
  The value \<open>e\<close> read under the whole key is looked at only where the code returns it.
\<close>

definition getdata :: "engine \<Rightarrow> JSON \<Rightarrow> globals \<Rightarrow> store \<Rightarrow> string \<Rightarrow> jsval outcome" where
  "getdata E J g st t =
     (if starts_with_at t then
        (case compound_address t of
           None \<Rightarrow> Throws TypeError
         | Some (s, i) \<Rightarrow>
             (case (if s \<noteq> [] then getval E g st s else Returns (JStr [])) of
                Returns held_text \<Rightarrow>
                  if \<not> truthy held_text then getval E g st t
                  else (case JSON_parse J (to_string held_text) of
                          None \<Rightarrow> Returns (JStr [])
                        | Some d \<Rightarrow>
                            if truthy d then lodash_get E d i (JStr [])
                            else getval E g st t)
              | Throws err \<Rightarrow> Throws err
              | Built_in \<Rightarrow> Built_in))
      else getval E g st t)"

text \<open>
  \<^verbatim>\<open>setdata(t, e) { let s = !1;
      if (/^@/.test(e)) { const [, i, o] = /^@(.*?)\.(.*?)$/.exec(e), r = this.getval(i),
          a = i ? "null" === r ? null : r || "{}" : "{}";
        try { const e = JSON.parse(a); this.lodash_set(e, o, t),
              s = this.setval(JSON.stringify(e), i) }
        catch (e) { const r = {}; this.lodash_set(r, o, t),
              s = this.setval(JSON.stringify(r), i) } }
      else s = this.setval(t, e);
      return s }\<close>
  \<open>JSON.parse(null)\<close> is \<open>null\<close>. \<open>current_document\<close> is the value of
  \<open>JSON.parse(a)\<close>, \<open>None\<close> when it throws. \<open>write_into\<close> is \<open>lodash_set\<close>
  followed by \<open>JSON.stringify\<close>, which throws when the text would be too long.
  \<open>new_document\<close> is the document whose text is stored: the one \<open>lodash_set\<close> has
  written into, or, when parsing, writing or serialising threw, a fresh \<open>{}\<close> written
  into.
\<close>

definition current_document :: "JSON \<Rightarrow> string \<Rightarrow> jsval \<Rightarrow> jsval option" where
  "current_document J i r =
     (if i = [] then JSON_parse J ''{}''
      else if r = JStr ''null'' then Some JNull
      else JSON_parse J (if truthy r then to_string r else ''{}''))"

definition write_into :: "engine \<Rightarrow> JSON \<Rightarrow> jsval \<Rightarrow> string \<Rightarrow> string \<Rightarrow> jsval outcome" where
  "write_into E J d p v =
     (case lodash_set E d p (JStr v) of
        Returns d' \<Rightarrow>
          if int (length (JSON_stringify J d')) \<le> max_string E then Returns d' else Throws RangeError
      | Throws err \<Rightarrow> Throws err
      | Built_in \<Rightarrow> Built_in)"

definition new_document :: "engine \<Rightarrow> JSON \<Rightarrow> string \<Rightarrow> jsval \<Rightarrow> string \<Rightarrow> string \<Rightarrow> jsval outcome" where
  "new_document E J i r p v =
     (case current_document J i r of
        None \<Rightarrow> write_into E J (JObj []) p v
      | Some d \<Rightarrow>
          (case write_into E J d p v of
             Returns d' \<Rightarrow> Returns d'
           | Throws err \<Rightarrow> write_into E J (JObj []) p v
           | Built_in \<Rightarrow> Built_in))"

definition setdata :: "engine \<Rightarrow> JSON \<Rightarrow> globals \<Rightarrow> store \<Rightarrow> string \<Rightarrow> string \<Rightarrow> (bool \<times> store) outcome" where
  "setdata E J g st v e =
     (if starts_with_at e then
        (case compound_address e of
           None \<Rightarrow> Throws TypeError
         | Some (i, p) \<Rightarrow>
             (case getval E g st i of
                Returns r \<Rightarrow>
                  (case new_document E J i r p v of
                     Returns d' \<Rightarrow> setval E g st (JSON_stringify J d') i
                   | Throws err \<Rightarrow> Throws err
                   | Built_in \<Rightarrow> Built_in)
              | Throws err \<Rightarrow> Throws err
              | Built_in \<Rightarrow> Built_in))
      else setval E g st v e)"






fun is_array :: "jsval \<Rightarrow> bool" where
  "is_array (JArr xs) = True"
| "is_array t = False"

definition keeps_elements :: "engine \<Rightarrow> jsval list \<Rightarrow> jsval \<Rightarrow> bool" where
  "keeps_elements E xs v =
     (case number_of E v of
        Integer n \<Rightarrow> int (length xs) \<le> n \<and> n < 4294967296
      | other \<Rightarrow> False)"

fun spoils_length :: "engine \<Rightarrow> jsval \<Rightarrow> string \<Rightarrow> jsval \<Rightarrow> bool" where
  "spoils_length E (JArr xs) k v = (k = ''length'' \<and> \<not> keeps_elements E xs v)"
| "spoils_length E t k v = False"

fun cuts_array :: "engine \<Rightarrow> jsval \<Rightarrow> string list \<Rightarrow> jsval \<Rightarrow> bool" where
  "cuts_array E t [] v = False"
| "cuts_array E t [k] v = spoils_length E t k v"
| "cuts_array E t (k # k' # ks) v =
     (if is_object (property t k) then cuts_array E (property t k) (k' # ks) v
      else spoils_length E t k (fresh E k') \<or> cuts_array E (fresh E k') (k' # ks) v)"


definition written_path :: "string \<Rightarrow> string list" where
  "written_path p = (case tokens p of [] \<Rightarrow> [''undefined''] | k # ks \<Rightarrow> k # ks)"

text \<open>
  Stand-ins for evaluating the model on examples. For the \<open>JSON\<close> object: a handful of
  texts, each paired with the value \<open>JSON.parse\<close> gives for it, and \<open>JSON.stringify\<close>
  the other way round. For the engine: the members of \<open>Object.prototype\<close>, inherited by
  every value, and of \<open>Array.prototype\<close>, inherited by arrays, in ECMAScript 2023;
  ToNumber on decimal integers (\<open>string_to_num\<close>); and the string limit of V8,
  \<open>2^29 - 24\<close>. \<open>stored_under\<close> is what a call of \<open>setdata\<close> leaves under one key.
\<close>

definition sample_texts :: "(string \<times> jsval) list" where
  \<open>sample_texts =
     [(''{}'', JObj []),
      (''42'', JNum 42),
      (''{"0":"v"}'', JObj [(''0'', JStr ''v'')]),
      (''{"a":[]}'', JObj [(''a'', JArr [])]),
      (''{"user":{"tags":[null,"v"]}}'',
         JObj [(''user'', JObj [(''tags'', JArr [JNull, JStr ''v''])])]),
      (''{"a":[1,2,3],"b":1}'',
         JObj [(''a'', JArr [JNum 1, JNum 2, JNum 3]), (''b'', JNum 1)]),
      (''{"a":[],"b":1}'',
         JObj [(''a'', JArr []), (''b'', JNum 1)]),
      (''{"a":{"x":1},"b":[1,2]}'',
         JObj [(''a'', JObj [(''x'', JNum 1)]), (''b'', JArr [JNum 1, JNum 2])]),
      (''{"a":{"x":1,"y":"v"},"b":[1,2]}'',
         JObj [(''a'', JObj [(''x'', JNum 1), (''y'', JStr ''v'')]), (''b'', JArr [JNum 1, JNum 2])]),
      (''{"a":{"y":"v"}}'', JObj [(''a'', JObj [(''y'', JStr ''v'')])])]\<close>

definition sample_JSON :: JSON where
  "sample_JSON =
     \<lparr>JSON_parse = map_of sample_texts,
      JSON_stringify = (\<lambda>d. case find (\<lambda>td. snd td = d) sample_texts of
                              None \<Rightarrow> ''null'' | Some td \<Rightarrow> fst td)\<rparr>"

definition object_prototype_names :: "string list" where
  "object_prototype_names =
     [''constructor'', ''__proto__'', ''hasOwnProperty'', ''isPrototypeOf'',
      ''propertyIsEnumerable'', ''toLocaleString'', ''toString'', ''valueOf'',
      ''__defineGetter__'', ''__defineSetter__'', ''__lookupGetter__'', ''__lookupSetter__'']"

definition array_prototype_names :: "string list" where
  "array_prototype_names =
     [''at'', ''concat'', ''copyWithin'', ''entries'', ''every'', ''fill'', ''filter'', ''find'',
      ''findIndex'', ''findLast'', ''findLastIndex'', ''flat'', ''flatMap'', ''forEach'',
      ''includes'', ''indexOf'', ''join'', ''keys'', ''lastIndexOf'', ''map'', ''pop'', ''push'',
      ''reduce'', ''reduceRight'', ''reverse'', ''shift'', ''slice'', ''some'', ''sort'',
      ''splice'', ''toReversed'', ''toSorted'', ''toSpliced'', ''unshift'', ''values'', ''with'']"

definition sample_engine :: engine where
  "sample_engine =
     \<lparr>inherits = (\<lambda>t k. k \<in> set object_prototype_names
                          \<or> is_array t \<and> k \<in> set array_prototype_names),
      ToNumber = (\<lambda>s. case string_to_num s of NaN \<Rightarrow> Not_a_number | Num n \<Rightarrow> Integer n),
      max_string = 536870888\<rparr>"

fun stored_under :: "string \<Rightarrow> (bool \<times> store) outcome \<Rightarrow> (bool \<times> string option) outcome" where
  "stored_under k (Returns (ok, st)) = Returns (ok, st k)"
| "stored_under k (Throws err) = Throws err"
| "stored_under k Built_in = Built_in"

section \<open>Results about the key-value store\<close>


































lemma split_dot_not_Nil: "split_dot s \<noteq> []"
  by (induction s) (auto split: list.splits)







text \<open>
  The model on keys and paths at the edge of what the results below cover: a key with a
  line terminator is refused with a TypeError; a path through an inherited member, and on
  Node.js a key that names one, ends in \<open>Built_in\<close>; a key the store does not hold reads
  as \<open>undefined\<close> on Node.js and as \<open>null\<close> elsewhere; an assignment to the
  \<open>length\<close> of an array keeps the elements when the value is a length not below the
  present one; and when the text of the new document is longer than a string may be (here
  with a limit of 20 characters), the \<open>catch\<close> branch stores a fresh document with the
  new field alone.
\<close>

lemma address_with_line_separator:
  "compound_address (''@c'' @ [CHR 0xE2, CHR 0x80, CHR 0xA8] @ ''.a'') = None
   \<and> stored_under ''c'' (setdata sample_engine sample_JSON loon_host Map.empty ''v''
         (''@c'' @ [CHR 0xE2, CHR 0x80, CHR 0xA8] @ ''.a'')) = Throws TypeError
   \<and> getdata sample_engine sample_JSON loon_host Map.empty
         (''@c'' @ [CHR 0xE2, CHR 0x80, CHR 0xA9] @ ''.a'') = Throws TypeError
   \<and> getdata sample_engine sample_JSON loon_host Map.empty [CHR ''@'', CHR ''c'', CHR 0x0A, CHR ''.'', CHR ''a'']
         = Throws TypeError"
proof (intro conjI)
  show "compound_address (''@c'' @ [CHR 0xE2, CHR 0x80, CHR 0xA8] @ ''.a'') = None" by code_simp
  show "stored_under ''c'' (setdata sample_engine sample_JSON loon_host Map.empty ''v''
         (''@c'' @ [CHR 0xE2, CHR 0x80, CHR 0xA8] @ ''.a'')) = Throws TypeError" by code_simp
  show "getdata sample_engine sample_JSON loon_host Map.empty
         (''@c'' @ [CHR 0xE2, CHR 0x80, CHR 0xA9] @ ''.a'') = Throws TypeError" by code_simp
  show "getdata sample_engine sample_JSON loon_host Map.empty [CHR ''@'', CHR ''c'', CHR 0x0A, CHR ''.'', CHR ''a'']
         = Throws TypeError" by code_simp
qed

lemma inherited_members_on_the_path:
  \<open>stored_under ''c'' (setdata sample_engine sample_JSON loon_host [''c'' \<mapsto> ''{}''] ''v'' ''@c.constructor.name'') = Built_in
   \<and> stored_under ''c'' (setdata sample_engine sample_JSON loon_host
          [''c'' \<mapsto> ''{"a":[1,2,3],"b":1}''] ''v'' ''@c.a.map.name'') = Built_in
   \<and> getdata sample_engine sample_JSON loon_host [''c'' \<mapsto> ''{}''] ''@c.toString'' = Built_in
   \<and> getdata sample_engine sample_JSON loon_host [''c'' \<mapsto> ''{}''] ''@c.x'' = Returns (JStr [])\<close>
proof (intro conjI)
  show \<open>stored_under ''c'' (setdata sample_engine sample_JSON loon_host [''c'' \<mapsto> ''{}''] ''v'' ''@c.constructor.name'') = Built_in\<close>
    by code_simp
  show \<open>stored_under ''c'' (setdata sample_engine sample_JSON loon_host
          [''c'' \<mapsto> ''{"a":[1,2,3],"b":1}''] ''v'' ''@c.a.map.name'') = Built_in\<close> by code_simp
  show \<open>getdata sample_engine sample_JSON loon_host [''c'' \<mapsto> ''{}''] ''@c.toString'' = Built_in\<close>
    by code_simp
  show \<open>getdata sample_engine sample_JSON loon_host [''c'' \<mapsto> ''{}''] ''@c.x'' = Returns (JStr [])\<close>
    by code_simp
qed

lemma keys_of_the_data_file:
  "getdata sample_engine sample_JSON node_host Map.empty ''k'' = Returns JUndef
   \<and> getdata sample_engine sample_JSON loon_host Map.empty ''k'' = Returns JNull
   \<and> getdata sample_engine sample_JSON node_host Map.empty ''__proto__'' = Built_in
   \<and> stored_under ''c'' (setdata sample_engine sample_JSON node_host Map.empty ''v'' ''@__proto__.a'') = Built_in
   \<and> stored_under ''k'' (setdata sample_engine sample_JSON node_host Map.empty ''v'' ''k'')
        = Returns (True, Some ''v'')"
proof (intro conjI)
  show "getdata sample_engine sample_JSON node_host Map.empty ''k'' = Returns JUndef" by code_simp
  show "getdata sample_engine sample_JSON loon_host Map.empty ''k'' = Returns JNull" by code_simp
  show "getdata sample_engine sample_JSON node_host Map.empty ''__proto__'' = Built_in" by code_simp
  show "stored_under ''c'' (setdata sample_engine sample_JSON node_host Map.empty ''v'' ''@__proto__.a'') = Built_in"
    by code_simp
  show "stored_under ''k'' (setdata sample_engine sample_JSON node_host Map.empty ''v'' ''k'')
        = Returns (True, Some ''v'')" by code_simp
qed

lemma length_that_keeps_the_elements:
  \<open>stored_under ''c'' (setdata sample_engine sample_JSON loon_host [''c'' \<mapsto> ''{"a":[1,2,3],"b":1}'']
       ''3'' ''@c.a.length'') = Returns (True, Some ''{"a":[1,2,3],"b":1}'')
   \<and> \<not> cuts_array sample_engine (JObj [(''a'', JArr [JNum 1, JNum 2, JNum 3]), (''b'', JNum 1)])
         (written_path ''a.length'') (JStr ''3'')
   \<and> cuts_array sample_engine (JObj [(''a'', JArr [JNum 1, JNum 2, JNum 3]), (''b'', JNum 1)])
         (written_path ''a.length'') (JStr ''0'')
   \<and> cuts_array sample_engine (JObj [(''a'', JArr [JNum 1, JNum 2, JNum 3]), (''b'', JNum 1)])
         (written_path ''a.length'') (JStr ''x'')\<close>
proof (intro conjI)
  show \<open>stored_under ''c'' (setdata sample_engine sample_JSON loon_host [''c'' \<mapsto> ''{"a":[1,2,3],"b":1}'']
       ''3'' ''@c.a.length'') = Returns (True, Some ''{"a":[1,2,3],"b":1}'')\<close> by code_simp
  show \<open>\<not> cuts_array sample_engine (JObj [(''a'', JArr [JNum 1, JNum 2, JNum 3]), (''b'', JNum 1)])
         (written_path ''a.length'') (JStr ''3'')\<close> by code_simp
  show \<open>cuts_array sample_engine (JObj [(''a'', JArr [JNum 1, JNum 2, JNum 3]), (''b'', JNum 1)])
         (written_path ''a.length'') (JStr ''0'')\<close> by code_simp
  show \<open>cuts_array sample_engine (JObj [(''a'', JArr [JNum 1, JNum 2, JNum 3]), (''b'', JNum 1)])
         (written_path ''a.length'') (JStr ''x'')\<close> by code_simp
qed

lemma text_beyond_the_string_limit:
  \<open>stored_under ''c'' (setdata (sample_engine\<lparr>max_string := 20\<rparr>) sample_JSON loon_host
       [''c'' \<mapsto> ''{"a":{"x":1},"b":[1,2]}''] ''v'' ''@c.a.y'')
     = Returns (True, Some ''{"a":{"y":"v"}}'')\<close>
  by code_simp







end
